theory Spec2Isabelle
  imports Main
begin

section \<open>Python values, exceptions and the logging collaborator\<close>

text \<open>
  Events and schemas are dynamically typed Python values as \<open>json.load\<close> or a literal
  produces them: \<open>None\<close>, booleans, integers, strings, lists and dictionaries with string
  keys. A dictionary is an association list in insertion order, which is the order
  \<open>items()\<close> iterates in; Python dictionaries never repeat a key. Floating point numbers
  are not part of the value universe.
\<close>

datatype pyval =
    VNone
  | VBool bool
  | VInt int
  | VStr string
  | VList "pyval list"
  | VDict "(string \<times> pyval) list"

text \<open>The exceptions the modelled code can raise. An exception that leaves a function
  is the \<open>Inl\<close> result of its model.\<close>

datatype py_error = KeyError | TypeError | AttributeError

text \<open>The classes that \<open>TYPE_MAPPING\<close> of \<open>event_validator.py\<close> maps to.\<close>

datatype py_type = TStr | TInt | TDict | TBool

text \<open>
  The logger is a collaborator that only receives records. A record keeps the level and
  the values interpolated into the message; the fixed Portuguese wording is represented by
  the constructor.
\<close>

datatype log_msg =
    TypeNotFound pyval
  | NoRequiredParam
  | MissingRequired "pyval set"
  | Unregistered "pyval set"
  | FieldsRegistered
  | TypeMismatch string pyval string
  | ContentValidated
  | QueryStart
  | IncludedNames
  | IncludedColumns
  | IncludedComment
  | IncludedPartition
  | IncludedClustering
  | ClusteringNeedsBoth
  | IncludedRowFormat
  | IncludedFileFormat
  | IncludedSerde
  | IncludedLocation
  | IncludedTblProperties
  | QueryEnd
  | QueryText string
  | ColDataStart
  | ColDataFiltered "string list"
  | ColDataEnd

datatype log_record = LogInfo log_msg | LogError log_msg | LogWarning log_msg

text \<open>A call returns its value or the exception that left it, and the records it logged.\<close>

type_synonym 'a res = "(py_error + 'a) \<times> log_record list"

text \<open>Truth value testing (\<open>if x:\<close>, \<open>not x\<close>).\<close>

fun truthy :: "pyval \<Rightarrow> bool" where
  "truthy VNone = False"
| "truthy (VBool b) = b"
| "truthy (VInt n) = (n \<noteq> 0)"
| "truthy (VStr s) = (s \<noteq> [])"
| "truthy (VList xs) = (xs \<noteq> [])"
| "truthy (VDict kvs) = (kvs \<noteq> [])"

text \<open>\<open>v[k]\<close> for a string key \<open>k\<close>: only a dictionary accepts it, and raises
  \<open>KeyError\<close> when the key is absent; every other value raises \<open>TypeError\<close>.\<close>

fun subscript :: "pyval \<Rightarrow> string \<Rightarrow> py_error + pyval" where
  "subscript (VDict kvs) k = (case map_of kvs k of None \<Rightarrow> Inl KeyError | Some v \<Rightarrow> Inr v)"
| "subscript _ k = Inl TypeError"

text \<open>\<open>v.keys()\<close> and \<open>v.items()\<close> exist on dictionaries only.\<close>

fun py_keys :: "pyval \<Rightarrow> py_error + string list" where
  "py_keys (VDict kvs) = Inr (map fst kvs)"
| "py_keys _ = Inl AttributeError"

fun py_items :: "pyval \<Rightarrow> py_error + (string \<times> pyval) list" where
  "py_items (VDict kvs) = Inr kvs"
| "py_items _ = Inl AttributeError"

text \<open>Lists and dictionaries are unhashable.\<close>

fun hashable :: "pyval \<Rightarrow> bool" where
  "hashable (VList _) = False"
| "hashable (VDict _) = False"
| "hashable _ = True"

text \<open>
  \<open>set(v)\<close>: the elements of a list (all of which must be hashable), the one-character
  strings of a string, the keys of a dictionary; anything else is not iterable. Elements
  are compared by equality of values; Python identifies \<open>True\<close> with \<open>1\<close> and \<open>False\<close>
  with \<open>0\<close> inside a set, which is immaterial for comparison with sets of strings.
\<close>

fun py_set :: "pyval \<Rightarrow> py_error + pyval set" where
  "py_set (VList xs) = (if list_all hashable xs then Inr (set xs) else Inl TypeError)"
| "py_set (VStr s) = Inr ((\<lambda>c. VStr [c]) ` set s)"
| "py_set (VDict kvs) = Inr (VStr ` set (map fst kvs))"
| "py_set _ = Inl TypeError"

text \<open>\<open>isinstance(v, t)\<close> for the four classes of the type mapping; \<open>bool\<close> is a subclass
  of \<open>int\<close>.\<close>

fun isinstance :: "pyval \<Rightarrow> py_type \<Rightarrow> bool" where
  "isinstance (VStr _) TStr = True"
| "isinstance (VInt _) TInt = True"
| "isinstance (VBool _) TInt = True"
| "isinstance (VBool _) TBool = True"
| "isinstance (VDict _) TDict = True"
| "isinstance _ _ = False"

text \<open>\<open>type(v).__name__\<close>.\<close>

fun type_name :: "pyval \<Rightarrow> string" where
  "type_name VNone = ''NoneType''"
| "type_name (VBool _) = ''bool''"
| "type_name (VInt _) = ''int''"
| "type_name (VStr _) = ''str''"
| "type_name (VList _) = ''list''"
| "type_name (VDict _) = ''dict''"

section \<open>event\_validator.py: class Validation\<close>

definition event_validator_TYPE_MAPPING :: "(string \<times> py_type) list" where
  "event_validator_TYPE_MAPPING =
     [(''string'', TStr), (''integer'', TInt), (''object'', TDict), (''boolean'', TBool)]"

text \<open>
  \<open>Validation._get_custom_type(custom_type, custom_type_mapping=None)\<close>. The argument
  \<open>custom_type\<close> is whatever the schema holds under \<open>type\<close>. Indexing the mapping with
  an unhashable value raises \<open>TypeError\<close>; a hashable value that is not a key raises
  \<open>KeyError\<close>, which is caught: the error is logged and the method falls off its end,
  returning \<open>None\<close>.
\<close>

definition Validation_get_custom_type ::
  "pyval \<Rightarrow> (string \<times> py_type) list option \<Rightarrow> py_type option res" where
  "Validation_get_custom_type custom_type custom_type_mapping =
     (let mapping = (case custom_type_mapping of
                       None \<Rightarrow> event_validator_TYPE_MAPPING
                     | Some m \<Rightarrow> if m = [] then event_validator_TYPE_MAPPING else m)
      in if \<not> hashable custom_type then (Inl TypeError, [])
         else case (case custom_type of VStr s \<Rightarrow> map_of mapping s | _ \<Rightarrow> None) of
                Some t \<Rightarrow> (Inr (Some t), [])
              | None \<Rightarrow> (Inr None, [LogError (TypeNotFound custom_type)]))"

text \<open>
  \<open>Validation.compare_event_fields(schema, event=None)\<close>; \<open>self_event\<close> is the
  event given to the constructor. Only \<open>KeyError\<close> is caught around
  \<open>set(schema["required"])\<close>.
\<close>

definition compare_event_fields :: "pyval \<Rightarrow> pyval \<Rightarrow> pyval \<Rightarrow> bool res" where
  "compare_event_fields self_event schema event0 =
     (let event = (if \<not> truthy event0 then self_event else event0) in
      case subscript schema ''required'' of
        Inl KeyError \<Rightarrow> (Inr False, [LogError NoRequiredParam])
      | Inl e \<Rightarrow> (Inl e, [])
      | Inr req \<Rightarrow>
         (case py_set req of
            Inl e \<Rightarrow> (Inl e, [])
          | Inr required_fields \<Rightarrow>
             (case py_keys event of
                Inl e \<Rightarrow> (Inl e, [])
              | Inr ks \<Rightarrow>
                 (let events_fields = VStr ` set ks;
                      missing_required_fields = required_fields - events_fields;
                      fields_not_required = events_fields - required_fields
                  in if missing_required_fields \<noteq> {}
                     then (Inr False, [LogError (MissingRequired missing_required_fields)])
                     else if fields_not_required \<noteq> {}
                     then (Inr False, [LogError (Unregistered fields_not_required)])
                     else (Inr True, [LogInfo FieldsRegistered])))))"

text \<open>
  \<open>Validation.validate_event_content(schema, event=None)\<close>. The \<open>for\<close> loop over
  \<open>event.items()\<close> is \<open>validate_event_items\<close>, on the items still to visit. The loop
  body returns from the whole method in four places: unknown type, type mismatch, an
  exception, and the recursive call on a value that is a dictionary.
\<close>

lemma size_map_of: "map_of kvs k = Some v \<Longrightarrow> size v < size (VDict kvs)"
  by (induction kvs) (auto split: if_splits)

lemma size_subscript [termination_simp]: "subscript d k = Inr v \<Longrightarrow> size v < size d"
  using size_map_of by (cases d) (auto split: option.splits)

function validate_event_content :: "pyval \<Rightarrow> pyval \<Rightarrow> pyval \<Rightarrow> bool res"
  and validate_event_items :: "pyval \<Rightarrow> pyval \<Rightarrow> (string \<times> pyval) list \<Rightarrow> bool res"
where
  "validate_event_content self_event schema event0 =
     (let event = (if \<not> truthy event0 then self_event else event0) in
      case compare_event_fields self_event schema event of
        (Inl e, lg) \<Rightarrow> (Inl e, lg)
      | (Inr False, lg) \<Rightarrow> (Inr False, lg)
      | (Inr True, lg) \<Rightarrow>
         (case py_items event of
            Inl e \<Rightarrow> (Inl e, lg)
          | Inr items \<Rightarrow>
             (case validate_event_items self_event schema items of
                (r, lg') \<Rightarrow> (r, lg @ lg'))))"
| "validate_event_items self_event schema [] = (Inr True, [LogInfo ContentValidated])"
| "validate_event_items self_event schema ((key, val) # rest) =
     (case subscript schema ''properties'' of
        Inl e \<Rightarrow> (Inl e, [])
      | Inr props \<Rightarrow>
         (case subscript props key of
            Inl e \<Rightarrow> (Inl e, [])
          | Inr spec \<Rightarrow>
             (case subscript spec ''type'' of
                Inl e \<Rightarrow> (Inl e, [])
              | Inr ty \<Rightarrow>
                 (case Validation_get_custom_type ty None of
                    (Inl e, lg) \<Rightarrow> (Inl e, lg)
                  | (Inr None, lg) \<Rightarrow> (Inr False, lg)
                  | (Inr (Some custom_type), lg) \<Rightarrow>
                     if \<not> isinstance val custom_type
                     then (Inr False, lg @ [LogError (TypeMismatch key ty (type_name val))])
                     else if isinstance val TDict
                     then (case validate_event_content self_event spec val of
                             (r, lg') \<Rightarrow> (r, lg @ lg'))
                     else (case validate_event_items self_event schema rest of
                             (r, lg') \<Rightarrow> (r, lg @ lg'))))))"
  by pat_completeness auto
termination
proof (relation "measures
         [\<lambda>x. case x of Inl (_, schema, _) \<Rightarrow> size schema | Inr (_, schema, _) \<Rightarrow> size schema,
          \<lambda>x. case x of Inl _ \<Rightarrow> Suc 0 | Inr _ \<Rightarrow> 0,
          \<lambda>x. case x of Inl _ \<Rightarrow> 0 | Inr (_, _, items) \<Rightarrow> length items]",
       goal_cases)
  case 1
  then show ?case by simp
next
  case 2
  then show ?case by simp
next
  case (3 self_event schema key val rest props spec ty)
  from 3(1,2) have "size spec < size schema"
    using size_subscript by (meson less_trans)
  then show ?case by simp
next
  case 4
  then show ?case by simp
qed

declare validate_event_content.simps [simp del]

section \<open>Rendering values as text\<close>

text \<open>
  An f-string renders a value with \<open>str\<close>, and \<open>str.join\<close> puts a separator between
  the elements of a list of strings. \<open>str\<close> of a string is the string itself; of a list
  or a dictionary it is the \<open>repr\<close>, which quotes and escapes the strings inside.
  The quoting of a string by \<open>repr\<close> belongs to the interpreter and is the parameter
  \<open>str_repr\<close> of the functions that render values.
\<close>

abbreviation squote :: string where
  "squote \<equiv> [CHR 0x27]"

fun py_join :: "string \<Rightarrow> string list \<Rightarrow> string" where
  "py_join sep [] = []"
| "py_join sep [x] = x"
| "py_join sep (x # y # ys) = x @ sep @ py_join sep (y # ys)"

fun nat_digits :: "nat \<Rightarrow> string" where
  "nat_digits n =
     (if n < 10 then [''0123456789'' ! n]
      else nat_digits (n div 10) @ [''0123456789'' ! (n mod 10)])"

declare nat_digits.simps [simp del]

definition py_str_int :: "int \<Rightarrow> string" where
  "py_str_int i = (if i < 0 then ''-'' @ nat_digits (nat (- i)) else nat_digits (nat i))"

fun py_repr :: "(string \<Rightarrow> string) \<Rightarrow> pyval \<Rightarrow> string" where
  "py_repr str_repr VNone = ''None''"
| "py_repr str_repr (VBool b) = (if b then ''True'' else ''False'')"
| "py_repr str_repr (VInt i) = py_str_int i"
| "py_repr str_repr (VStr s) = str_repr s"
| "py_repr str_repr (VList xs) = ''['' @ py_join '', '' (map (py_repr str_repr) xs) @ '']''"
| "py_repr str_repr (VDict kvs) =
     ''{'' @ py_join '', '' (map (\<lambda>kv. str_repr (fst kv) @ '': '' @ py_repr str_repr (snd kv)) kvs)
       @ ''}''"

fun py_str :: "(string \<Rightarrow> string) \<Rightarrow> pyval \<Rightarrow> string" where
  "py_str str_repr (VStr s) = s"
| "py_str str_repr v = py_repr str_repr v"

text \<open>\<open>sep.join(v)\<close>: the argument must be iterable and yield strings only. A string
  yields its characters, a dictionary its keys.\<close>

fun the_strs :: "pyval list \<Rightarrow> py_error + string list" where
  "the_strs [] = Inr []"
| "the_strs (VStr s # vs) = (case the_strs vs of Inl e \<Rightarrow> Inl e | Inr ss \<Rightarrow> Inr (s # ss))"
| "the_strs (_ # vs) = Inl TypeError"

fun py_join_val :: "string \<Rightarrow> pyval \<Rightarrow> py_error + string" where
  "py_join_val sep (VList xs) =
     (case the_strs xs of Inl e \<Rightarrow> Inl e | Inr ss \<Rightarrow> Inr (py_join sep ss))"
| "py_join_val sep (VStr s) = Inr (py_join sep (map (\<lambda>c. [c]) s))"
| "py_join_val sep (VDict kvs) = Inr (py_join sep (map fst kvs))"
| "py_join_val sep _ = Inl TypeError"

text \<open>\<open>d[k] = v\<close> on a dictionary: an existing key keeps its position.\<close>

fun dict_set :: "(string \<times> pyval) list \<Rightarrow> string \<Rightarrow> pyval \<Rightarrow> (string \<times> pyval) list" where
  "dict_set [] k v = [(k, v)]"
| "dict_set ((k', v') # kvs) k v =
     (if k' = k then (k, v) # kvs else (k', v') # dict_set kvs k v)"

fun setitem :: "pyval \<Rightarrow> string \<Rightarrow> pyval \<Rightarrow> py_error + pyval" where
  "setitem (VDict kvs) k v = Inr (VDict (dict_set kvs k v))"
| "setitem _ k v = Inl TypeError"

section \<open>json\_schema\_to\_hive.py: class Query\<close>

definition json_schema_to_hive_TYPE_MAPPING :: "(string \<times> string) list" where
  "json_schema_to_hive_TYPE_MAPPING =
     [(''string'', ''varchar''), (''integer'', ''tinyint''), (''object'', ''struct''),
      (''boolean'', ''boolean'')]"

text \<open>\<open>Query._get_custom_type(custom_type, custom_type_mapping=None)\<close>, with the same body
  as the validator's method over the other module's \<open>TYPE_MAPPING\<close>.\<close>

definition Query_get_custom_type ::
  "pyval \<Rightarrow> (string \<times> string) list option \<Rightarrow> string option res" where
  "Query_get_custom_type custom_type custom_type_mapping =
     (let mapping = (case custom_type_mapping of
                       None \<Rightarrow> json_schema_to_hive_TYPE_MAPPING
                     | Some m \<Rightarrow> if m = [] then json_schema_to_hive_TYPE_MAPPING else m)
      in if \<not> hashable custom_type then (Inl TypeError, [])
         else case (case custom_type of VStr s \<Rightarrow> map_of mapping s | _ \<Rightarrow> None) of
                Some t \<Rightarrow> (Inr (Some t), [])
              | None \<Rightarrow> (Inr None, [LogError (TypeNotFound custom_type)]))"

text \<open>
  \<open>Query.format_table_columns(col_dict, separator="")\<close>. The loop over
  \<open>col_dict.items()\<close> is \<open>format_table_columns_loop\<close>, with \<open>col_data_list\<close> as
  accumulator. The three \<open>try\<close> blocks catch \<open>NameError\<close> only. Every name read in
  them is bound, so no \<open>NameError\<close> arises and the handlers never run: a missing key
  raises \<open>KeyError\<close>, which leaves the method. A type that is not in the mapping comes
  back from \<open>_get_custom_type\<close> as \<open>None\<close> and is rendered as the text \<open>None\<close>.
\<close>

function format_table_columns :: "(string \<Rightarrow> string) \<Rightarrow> pyval \<Rightarrow> string \<Rightarrow> string res"
  and format_table_columns_loop ::
    "(string \<Rightarrow> string) \<Rightarrow> (string \<times> pyval) list \<Rightarrow> string \<Rightarrow> string list \<Rightarrow> string res"
where
  "format_table_columns str_repr col_dict separator =
     (case py_items col_dict of
        Inl e \<Rightarrow> (Inl e, [])
      | Inr items \<Rightarrow> format_table_columns_loop str_repr items separator [])"
| "format_table_columns_loop str_repr [] separator col_data_list =
     (Inr (py_join '',\<newline>'' col_data_list), [])"
| "format_table_columns_loop str_repr ((key, val) # rest) separator col_data_list =
     (case subscript val ''type'' of
        Inl e \<Rightarrow> (Inl e, [])
      | Inr ty \<Rightarrow>
         (case Query_get_custom_type ty None of
            (Inl e, lg) \<Rightarrow> (Inl e, lg)
          | (Inr t, lg) \<Rightarrow>
             (let col_data = key @ separator @ '' '' @ (case t of None \<Rightarrow> ''None'' | Some s \<Rightarrow> s)
              in case (if ty = VStr ''object''
                       then (case subscript val ''properties'' of
                               Inl e \<Rightarrow> (Inl e, lg)
                             | Inr props \<Rightarrow>
                                (case format_table_columns str_repr props '':'' of
                                   (Inl e, lg') \<Rightarrow> (Inl e, lg @ lg')
                                 | (Inr obj_columns, lg') \<Rightarrow>
                                    (Inr (col_data @ '' <'' @ obj_columns @ ''>''), lg @ lg')))
                       else (Inr col_data, lg)) of
                   (Inl e, lg1) \<Rightarrow> (Inl e, lg1)
                 | (Inr col_data1, lg1) \<Rightarrow>
                    (case subscript val ''description'' of
                       Inl e \<Rightarrow> (Inl e, lg1)
                     | Inr comment \<Rightarrow>
                        (let col_data2 =
                               (if truthy comment
                                then col_data1 @ '' COMMENT '' @ squote @ py_str str_repr comment
                                       @ squote
                                else col_data1)
                         in case format_table_columns_loop str_repr rest separator
                                   (col_data_list @ [col_data2]) of
                              (r, lg2) \<Rightarrow> (r, lg1 @ lg2))))))"
  by pat_completeness auto
termination
proof (relation "measures
         [\<lambda>x. case x of Inl (_, col_dict, _) \<Rightarrow> 2 * size col_dict + 1
                       | Inr (_, items, _) \<Rightarrow> 2 * size (VDict items)]",
       goal_cases)
  case 1
  then show ?case by simp
next
  case (2 str_repr col_dict separator items)
  then show ?case by (cases col_dict) auto
next
  case 3
  then show ?case by (auto dest: size_subscript)
next
  case 4
  then show ?case by simp
qed

declare format_table_columns.simps [simp del]

text \<open>\<open>Query.format_table_properties(tb_properties)\<close>.\<close>

definition format_table_properties :: "(string \<Rightarrow> string) \<Rightarrow> pyval \<Rightarrow> py_error + string" where
  "format_table_properties str_repr tb_properties =
     (case py_items tb_properties of
        Inl e \<Rightarrow> Inl e
      | Inr items \<Rightarrow>
         Inr (py_join '',''
               (map (\<lambda>(key, val). squote @ key @ squote @ '' = '' @ squote
                                      @ py_str str_repr val @ squote) items)))"

text \<open>
  \<open>Query.create_table\<close> grows \<open>query\<close> by one clause for every input that is
  truthy, in the order of the \<open>if\<close> statements of its body. Each \<open>if\<close> statement is
  a step from the query so far to the query after it, with the records it logs;
  \<open>then_do\<close> runs the next step unless an exception left the previous one, and appends
  the logs. An optional argument that is not passed is \<open>None\<close>.
\<close>

definition then_do :: "'a res \<Rightarrow> ('a \<Rightarrow> 'b res) \<Rightarrow> 'b res" where
  "then_do m f =
     (case m of
        (Inl e, lg) \<Rightarrow> (Inl e, lg)
      | (Inr x, lg) \<Rightarrow> (case f x of (r, lg') \<Rightarrow> (r, lg @ lg')))"

definition clause_columns :: "(string \<Rightarrow> string) \<Rightarrow> pyval \<Rightarrow> string \<Rightarrow> string res" where
  "clause_columns str_repr col_params query =
     (if truthy col_params
      then (case format_table_columns str_repr col_params [] of
              (Inl e, lg) \<Rightarrow> (Inl e, lg)
            | (Inr cols, lg) \<Rightarrow>
               (Inr (query @ ''\<newline>('' @ cols @ '')''), lg @ [LogInfo IncludedColumns]))
      else (Inr query, []))"

definition clause_comment :: "(string \<Rightarrow> string) \<Rightarrow> pyval \<Rightarrow> string \<Rightarrow> string res" where
  "clause_comment str_repr tb_desc query =
     (if truthy tb_desc
      then (Inr (query @ ''\<newline>COMMENT '' @ squote @ py_str str_repr tb_desc @ squote),
            [LogInfo IncludedComment])
      else (Inr query, []))"

definition clause_partition :: "(string \<Rightarrow> string) \<Rightarrow> pyval \<Rightarrow> string \<Rightarrow> string res" where
  "clause_partition str_repr partition_params query =
     (if truthy partition_params
      then (case format_table_columns str_repr partition_params [] of
              (Inl e, lg) \<Rightarrow> (Inl e, lg)
            | (Inr cols, lg) \<Rightarrow>
               (Inr (query @ ''\<newline>PARTITIONED BY ('' @ cols @ '')''),
                lg @ [LogInfo IncludedPartition]))
      else (Inr query, []))"

definition clause_clustering ::
  "(string \<Rightarrow> string) \<Rightarrow> pyval \<Rightarrow> pyval \<Rightarrow> string \<Rightarrow> string res" where
  "clause_clustering str_repr clustering_params num_buckets query =
     (if truthy clustering_params \<or> truthy num_buckets
      then (if truthy clustering_params \<and> truthy num_buckets
            then (case py_join_val '','' clustering_params of
                    Inl e \<Rightarrow> (Inl e, [])
                  | Inr cols \<Rightarrow>
                     (Inr (query @ ''\<newline>CLUSTERED BY ('' @ cols @ '') INTO ''
                             @ py_str str_repr num_buckets @ '' BUCKETS''),
                      [LogInfo IncludedClustering]))
            else (Inr query, [LogWarning ClusteringNeedsBoth]))
      else (Inr query, []))"

definition clause_row_format :: "(string \<Rightarrow> string) \<Rightarrow> pyval \<Rightarrow> string \<Rightarrow> string res" where
  "clause_row_format str_repr row_format query =
     (if truthy row_format
      then (Inr (query @ ''\<newline>ROW FORMAT '' @ squote @ py_str str_repr row_format @ squote),
            [LogInfo IncludedRowFormat])
      else (Inr query, []))"

definition clause_file_format :: "(string \<Rightarrow> string) \<Rightarrow> pyval \<Rightarrow> string \<Rightarrow> string res" where
  "clause_file_format str_repr file_format query =
     (if truthy file_format
      then (Inr (query @ ''\<newline>STORED AS '' @ py_str str_repr file_format),
            [LogInfo IncludedFileFormat])
      else (Inr query, []))"

definition clause_serde :: "(string \<Rightarrow> string) \<Rightarrow> pyval \<Rightarrow> string \<Rightarrow> string res" where
  "clause_serde str_repr serde_properties query =
     (if truthy serde_properties
      then (case format_table_properties str_repr serde_properties of
              Inl e \<Rightarrow> (Inl e, [])
            | Inr props \<Rightarrow>
               (Inr (query @ ''\<newline>WITH SERDEPROPERTIES ('' @ props @ '')''),
                [LogInfo IncludedSerde]))
      else (Inr query, []))"

definition clause_location :: "(string \<Rightarrow> string) \<Rightarrow> pyval \<Rightarrow> string \<Rightarrow> string res" where
  "clause_location str_repr location query =
     (if truthy location
      then (Inr (query @ ''\<newline>LOCATION '' @ squote @ py_str str_repr location @ squote),
            [LogInfo IncludedLocation])
      else (Inr query, []))"

definition clause_tbl_properties :: "(string \<Rightarrow> string) \<Rightarrow> pyval \<Rightarrow> string \<Rightarrow> string res" where
  "clause_tbl_properties str_repr tbl_properties query =
     (if truthy tbl_properties
      then (case format_table_properties str_repr tbl_properties of
              Inl e \<Rightarrow> (Inl e, [])
            | Inr props \<Rightarrow>
               (Inr (query @ ''\<newline>TBLPROPERTIES ('' @ props @ '')''),
                [LogInfo IncludedTblProperties]))
      else (Inr query, []))"

definition create_table ::
  "(string \<Rightarrow> string) \<Rightarrow> string \<Rightarrow> string \<Rightarrow> pyval \<Rightarrow> pyval \<Rightarrow> pyval \<Rightarrow> pyval \<Rightarrow> pyval \<Rightarrow> pyval
     \<Rightarrow> pyval \<Rightarrow> pyval \<Rightarrow> pyval \<Rightarrow> pyval \<Rightarrow> string res" where
  "create_table str_repr db_name tb_name col_params tb_desc partition_params clustering_params
       num_buckets row_format file_format serde_properties location tbl_properties =
     then_do (Inr (''CREATE EXTERNAL TABLE IF NOT EXISTS '' @ db_name @ ''.'' @ tb_name),
              [LogInfo QueryStart, LogInfo IncludedNames])
    (\<lambda>query. then_do (clause_columns str_repr col_params query)
    (\<lambda>query. then_do (clause_comment str_repr tb_desc query)
    (\<lambda>query. then_do (clause_partition str_repr partition_params query)
    (\<lambda>query. then_do (clause_clustering str_repr clustering_params num_buckets query)
    (\<lambda>query. then_do (clause_row_format str_repr row_format query)
    (\<lambda>query. then_do (clause_file_format str_repr file_format query)
    (\<lambda>query. then_do (clause_serde str_repr serde_properties query)
    (\<lambda>query. then_do (clause_location str_repr location query)
    (\<lambda>query. then_do (clause_tbl_properties str_repr tbl_properties query)
    (\<lambda>query. (Inr query, [LogInfo QueryEnd, LogInfo (QueryText query)])))))))))))"

section \<open>json\_schema\_to\_hive.py: class Schema\<close>

text \<open>
  The dictionary comprehension
  \<open>{key: schema["properties"][key] for key in filtered_col}\<close>, on the keys still to
  visit and the dictionary built so far.
\<close>

fun properties_comprehension ::
  "pyval \<Rightarrow> string list \<Rightarrow> (string \<times> pyval) list \<Rightarrow> py_error + (string \<times> pyval) list" where
  "properties_comprehension schema [] acc = Inr acc"
| "properties_comprehension schema (key # keys) acc =
     (case subscript schema ''properties'' of
        Inl e \<Rightarrow> Inl e
      | Inr props \<Rightarrow>
         (case subscript props key of
            Inl e \<Rightarrow> Inl e
          | Inr v \<Rightarrow> properties_comprehension schema keys (dict_set acc key v)))"

fun max_size :: "(string \<times> pyval) list \<Rightarrow> nat" where
  "max_size [] = 0"
| "max_size ((k, v) # kvs) = max (size v) (max_size kvs)"

lemma size_values: "(k, v) \<in> set kvs \<Longrightarrow> size v < size (VDict kvs)"
  by (induction kvs) auto

lemma max_size_less: "\<forall>(k, v) \<in> set kvs. size v < n \<Longrightarrow> 0 < n \<Longrightarrow> max_size kvs < n"
  by (induction kvs) auto

lemma set_dict_set: "set (dict_set kvs k v) \<subseteq> insert (k, v) (set kvs)"
  by (induction kvs) (auto split: if_splits)

lemma properties_comprehension_size:
  "properties_comprehension schema keys acc = Inr d \<Longrightarrow>
   (\<And>k v. (k, v) \<in> set acc \<Longrightarrow> Suc (size v) < size schema) \<Longrightarrow>
   (k, v) \<in> set d \<Longrightarrow> Suc (size v) < size schema"
proof (induction keys arbitrary: acc)
  case Nil
  then show ?case by simp
next
  case (Cons key keys)
  from Cons.prems(1) obtain props w where
    p: "subscript schema ''properties'' = Inr props" and
    w: "subscript props key = Inr w" and
    r: "properties_comprehension schema keys (dict_set acc key w) = Inr d"
    by (auto split: sum.splits)
  have "Suc (size w) < size schema"
    using size_subscript [OF p] size_subscript [OF w] by simp
  then have "\<And>k v. (k, v) \<in> set (dict_set acc key w) \<Longrightarrow> Suc (size v) < size schema"
    using Cons.prems(2) set_dict_set [of acc key w] by auto
  from Cons.IH [OF r this Cons.prems(3)] show ?case .
qed

lemma map_of_dict_set: "map_of (dict_set kvs k v) k = Some v"
  by (induction kvs) auto

lemma subscript_truthy: "subscript d k = Inr v \<Longrightarrow> truthy d"
  by (cases d) (auto split: option.splits)

text \<open>
  \<open>Schema.get_col_data(schema=None, filtered_col=None)\<close>; \<open>self_schema\<close> is the schema
  given to the constructor and \<open>filtered_col\<close> a list of column names. The method
  assigns to \<open>schema["properties"]\<close>, and \<open>schema\<close> is the caller's object (or
  \<open>self.schema\<close>), not a copy: the model returns, next to the result, that object as it
  is when the call ends. The loop over \<open>schema["properties"].items()\<close> is
  \<open>get_col_data_loop\<close> with \<open>col_dict\<close> as accumulator. The nested call passes no
  filter, so it assigns to nothing, and the object it returns is dropped.
\<close>

function get_col_data :: "pyval \<Rightarrow> pyval \<Rightarrow> string list option \<Rightarrow> pyval res \<times> pyval"
  and get_col_data_loop ::
    "pyval \<Rightarrow> (string \<times> pyval) list \<Rightarrow> (string \<times> pyval) list \<Rightarrow> pyval res"
where
  "get_col_data self_schema schema0 filtered_col =
     (let schema = (if \<not> truthy schema0 then self_schema else schema0) in
      case (case filtered_col of
              Some (c # cs) \<Rightarrow>
                (case properties_comprehension schema (c # cs) [] of
                   Inl e \<Rightarrow> Inl e
                 | Inr d \<Rightarrow>
                    (case setitem schema ''properties'' (VDict d) of
                       Inl e \<Rightarrow> Inl e
                     | Inr schema' \<Rightarrow> Inr (schema', [LogInfo (ColDataFiltered (c # cs))])))
            | _ \<Rightarrow> Inr (schema, [])) of
        Inl e \<Rightarrow> ((Inl e, [LogInfo ColDataStart]), schema)
      | Inr (schema1, lg1) \<Rightarrow>
         (case subscript schema1 ''properties'' of
            Inl e \<Rightarrow> ((Inl e, LogInfo ColDataStart # lg1), schema1)
          | Inr props \<Rightarrow>
             (case py_items props of
                Inl e \<Rightarrow> ((Inl e, LogInfo ColDataStart # lg1), schema1)
              | Inr items \<Rightarrow>
                 (case get_col_data_loop self_schema items [] of
                    (Inl e, lg2) \<Rightarrow> ((Inl e, LogInfo ColDataStart # lg1 @ lg2), schema1)
                  | (Inr col_dict, lg2) \<Rightarrow>
                     ((Inr col_dict, LogInfo ColDataStart # lg1 @ lg2 @ [LogInfo ColDataEnd]),
                      schema1)))))"
| "get_col_data_loop self_schema [] col_dict = (Inr (VDict col_dict), [])"
| "get_col_data_loop self_schema ((key, val) # rest) col_dict =
     (case subscript val ''type'' of
        Inl e \<Rightarrow> (Inl e, [])
      | Inr ty \<Rightarrow>
         (case subscript val ''description'' of
            Inl e \<Rightarrow> (Inl e, [])
          | Inr desc \<Rightarrow>
             (let col_dict1 = dict_set col_dict key (VDict [(''type'', ty), (''description'', desc)])
              in if ty = VStr ''object''
                 then (case get_col_data self_schema val None of
                         ((Inl e, lg), _) \<Rightarrow> (Inl e, lg)
                       | ((Inr nested, lg), _) \<Rightarrow>
                          (case get_col_data_loop self_schema rest
                                  (dict_set col_dict1 key
                                     (VDict [(''type'', ty), (''description'', desc),
                                             (''properties'', nested)])) of
                             (r, lg') \<Rightarrow> (r, lg @ lg')))
                 else get_col_data_loop self_schema rest col_dict1)))"
  by pat_completeness auto
termination
proof (relation "measures
         [\<lambda>x. case x of
                 Inl (self_schema, schema0, _) \<Rightarrow>
                   size (if \<not> truthy schema0 then self_schema else schema0)
               | Inr (_, items, _) \<Rightarrow> Suc (max_size items),
          \<lambda>x. case x of Inl _ \<Rightarrow> Suc 0 | Inr _ \<Rightarrow> 0,
          \<lambda>x. case x of Inl _ \<Rightarrow> 0 | Inr (_, items, _) \<Rightarrow> length items]",
       goal_cases)
  case 1
  then show ?case by simp
next
  case (2 self_schema schema0 filtered_col schema x schema1 lg1 props items)
  have items: "props = VDict items"
    using 2(5) by (cases props) auto
  have "max_size items < size schema"
  proof (cases "\<exists>c cs. filtered_col = Some (c # cs)")
    case True
    then obtain c cs where f: "filtered_col = Some (c # cs)" by blast
    from 2(2,3) f obtain d where
      d: "properties_comprehension schema (c # cs) [] = Inr d" and
      s': "setitem schema ''properties'' (VDict d) = Inr schema1"
      by (auto simp del: properties_comprehension.simps split: sum.splits)
    from s' obtain kvs where
      s: "schema = VDict kvs" and
      s1: "schema1 = VDict (dict_set kvs ''properties'' (VDict d))"
      by (cases schema) auto
    from 2(4) s1 items have "d = items"
      by (simp add: map_of_dict_set)
    with d have "\<forall>(k, v) \<in> set items. size v < size schema"
      using properties_comprehension_size [of schema "c # cs" "[]" items] by fastforce
    moreover have "0 < size schema" using s by simp
    ultimately show ?thesis by (rule max_size_less)
  next
    case False
    with 2(2,3) have "schema1 = schema"
      by (auto split: option.splits list.splits)
    with 2(4) have "size props < size schema"
      by (auto dest: size_subscript)
    moreover have "\<forall>(k, v) \<in> set items. size v < size props"
      using items size_values by blast
    ultimately have "\<forall>(k, v) \<in> set items. size v < size schema"
      by fastforce
    moreover have "0 < size schema" using \<open>size props < size schema\<close> by simp
    ultimately show ?thesis by (rule max_size_less)
  qed
  with 2(1) show ?case by auto
next
  case (3 self_schema key val rest col_dict ty desc col_dict1)
  from 3(1) have "truthy val" by (rule subscript_truthy)
  then show ?case by auto
next
  case 4
  then show ?case by auto
next
  case 5
  then show ?case by auto
qed

declare get_col_data.simps [simp del]

section \<open>Notions used to state and prove the properties\<close>

text \<open>A log record of level warning.\<close>

fun is_warning :: "log_record \<Rightarrow> bool" where
  "is_warning (LogWarning _) = True"
| "is_warning _ = False"

text \<open>
  A step on the query either raises the same exception for every query so far, or
  appends the same text to every query so far. Every clause of \<open>create_table\<close> is
  such a step.
\<close>

definition appends :: "(string \<Rightarrow> string res) \<Rightarrow> bool" where
  "appends f \<longleftrightarrow> (\<exists>e. \<forall>q. fst (f q) = Inl e) \<or> (\<exists>t. \<forall>q. fst (f q) = Inr (q @ t))"

text \<open>
  The body of \<open>create_table\<close> before and after the \<open>if\<close> statement of the
  clustering clause.
\<close>

definition clauses_after_clustering ::
  "(string \<Rightarrow> string) \<Rightarrow> pyval \<Rightarrow> pyval \<Rightarrow> pyval \<Rightarrow> pyval \<Rightarrow> pyval \<Rightarrow> string \<Rightarrow> string res" where
  "clauses_after_clustering str_repr row_format file_format serde_properties location
       tbl_properties query =
     then_do (clause_row_format str_repr row_format query)
    (\<lambda>query. then_do (clause_file_format str_repr file_format query)
    (\<lambda>query. then_do (clause_serde str_repr serde_properties query)
    (\<lambda>query. then_do (clause_location str_repr location query)
    (\<lambda>query. then_do (clause_tbl_properties str_repr tbl_properties query)
    (\<lambda>query. (Inr query, [LogInfo QueryEnd, LogInfo (QueryText query)]))))))"

definition clauses_before_clustering ::
  "(string \<Rightarrow> string) \<Rightarrow> string \<Rightarrow> string \<Rightarrow> pyval \<Rightarrow> pyval \<Rightarrow> pyval \<Rightarrow> string res" where
  "clauses_before_clustering str_repr db_name tb_name col_params tb_desc partition_params =
     then_do (Inr (''CREATE EXTERNAL TABLE IF NOT EXISTS '' @ db_name @ ''.'' @ tb_name),
              [LogInfo QueryStart, LogInfo IncludedNames])
    (\<lambda>query. then_do (clause_columns str_repr col_params query)
    (\<lambda>query. then_do (clause_comment str_repr tb_desc query)
    (\<lambda>query. clause_partition str_repr partition_params query)))"

section \<open>Properties of the validator\<close>

lemma Validation_get_custom_type_silent:
  "Validation_get_custom_type ty m = (Inr (Some t), lg) \<Longrightarrow> lg = []"
  by (auto simp: Validation_get_custom_type_def Let_def split: if_splits option.splits)

lemma Validation_get_custom_type_object:
  "Validation_get_custom_type (VStr ''object'') None = (Inr (Some TDict), [])"
  by (simp add: Validation_get_custom_type_def event_validator_TYPE_MAPPING_def)

lemma validate_event_items_passed_prefix:
  assumes "validate_event_items self_event schema pre = (Inr True, lg)"
      and "\<forall>(k, v) \<in> set pre. \<not> isinstance v TDict"
  shows "validate_event_items self_event schema (pre @ rest) =
         validate_event_items self_event schema rest"
  using assms
proof (induction pre arbitrary: lg)
  case Nil
  then show ?case by simp
next
  case (Cons kv pre)
  obtain key val where kv: "kv = (key, val)" by (cases kv)
  from Cons.prems(2) kv have nd: "\<not> isinstance val TDict"
    and rest_nd: "\<forall>(k, v) \<in> set pre. \<not> isinstance v TDict" by auto
  from Cons.prems(1) kv nd obtain props spec ty t lg0 r where
    p: "subscript schema ''properties'' = Inr props" and
    s: "subscript props key = Inr spec" and
    ty: "subscript spec ''type'' = Inr ty" and
    g: "Validation_get_custom_type ty None = (Inr (Some t), lg0)" and
    i: "isinstance val t" and
    r: "validate_event_items self_event schema pre = (Inr True, r)"
    by (auto simp: validate_event_content.simps split: sum.splits prod.splits option.splits if_splits)
  from g have lg0: "lg0 = []" by (rule Validation_get_custom_type_silent)
  from Cons.IH [OF r rest_nd]
  show ?case using kv p s ty g i nd lg0
    by (simp add: validate_event_content.simps split: prod.splits)
qed

text \<open>
  Claim C1. When the loop of \<open>validate_event_content\<close> reaches the first field whose
  value is a dictionary (the field comparison passed, the fields \<open>pre\<close> before it hold
  no dictionary and all passed their type check, and the field is declared with type
  \<open>object\<close>), the method returns what the recursive call on that field returns, with
  the logs of both; the fields \<open>post\<close> after it are never validated. As a consequence
  there is an event with two nested fields that validates as true although its second
  nested field \<open>b\<close>, validated on its own against its sub-schema, fails.
\<close>

theorem first_nested_field_decides:
  "(compare_event_fields self_event schema (VDict (pre @ (key, VDict d) # post)) = (Inr True, lg)
      \<and> validate_event_items self_event schema pre = (Inr True, lg0)
      \<and> (\<forall>(k, v) \<in> set pre. \<not> isinstance v TDict)
      \<and> subscript schema ''properties'' = Inr props
      \<and> subscript props key = Inr spec
      \<and> subscript spec ''type'' = Inr (VStr ''object'')
    \<longrightarrow> validate_event_content self_event schema (VDict (pre @ (key, VDict d) # post)) =
          (case validate_event_content self_event spec (VDict d) of (r, lg') \<Rightarrow> (r, lg @ lg')))
   \<and> (\<exists>schema event props spec_b doc_b.
          subscript schema ''properties'' = Inr props
        \<and> subscript props ''b'' = Inr spec_b
        \<and> subscript event ''b'' = Inr doc_b
        \<and> fst (validate_event_content event spec_b doc_b) = Inr False
        \<and> fst (validate_event_content event schema VNone) = Inr True)"
proof (rule conjI)
  show "compare_event_fields self_event schema (VDict (pre @ (key, VDict d) # post)) = (Inr True, lg)
      \<and> validate_event_items self_event schema pre = (Inr True, lg0)
      \<and> (\<forall>(k, v) \<in> set pre. \<not> isinstance v TDict)
      \<and> subscript schema ''properties'' = Inr props
      \<and> subscript props key = Inr spec
      \<and> subscript spec ''type'' = Inr (VStr ''object'')
    \<longrightarrow> validate_event_content self_event schema (VDict (pre @ (key, VDict d) # post)) =
          (case validate_event_content self_event spec (VDict d) of (r, lg') \<Rightarrow> (r, lg @ lg'))"
  proof (intro impI, elim conjE)
    assume c: "compare_event_fields self_event schema (VDict (pre @ (key, VDict d) # post))
                 = (Inr True, lg)"
      and pre: "validate_event_items self_event schema pre = (Inr True, lg0)"
      and nd: "\<forall>(k, v) \<in> set pre. \<not> isinstance v TDict"
      and p: "subscript schema ''properties'' = Inr props"
      and s: "subscript props key = Inr spec"
      and t: "subscript spec ''type'' = Inr (VStr ''object'')"
    have "validate_event_items self_event schema (pre @ (key, VDict d) # post) =
          validate_event_items self_event schema ((key, VDict d) # post)"
      using pre nd by (rule validate_event_items_passed_prefix)
    also have "\<dots> = validate_event_content self_event spec (VDict d)"
      using p s t by (simp add: validate_event_content.simps Validation_get_custom_type_object)
    finally show "validate_event_content self_event schema (VDict (pre @ (key, VDict d) # post)) =
          (case validate_event_content self_event spec (VDict d) of (r, lg') \<Rightarrow> (r, lg @ lg'))"
      using c by (simp add: validate_event_content.simps [of self_event schema])
  qed
next
  let ?spec_a = "VDict [(''type'', VStr ''object''), (''required'', VList [VStr ''x'']),
                        (''properties'', VDict [(''x'', VDict [(''type'', VStr ''string'')])])]"
  let ?spec_b = "VDict [(''type'', VStr ''object''), (''required'', VList [VStr ''y'']),
                        (''properties'', VDict [(''y'', VDict [(''type'', VStr ''integer'')])])]"
  let ?props = "VDict [(''a'', ?spec_a), (''b'', ?spec_b)]"
  let ?schema = "VDict [(''required'', VList [VStr ''a'', VStr ''b'']), (''properties'', ?props)]"
  let ?doc_b = "VDict [(''y'', VStr ''seven'')]"
  let ?event = "VDict [(''a'', VDict [(''x'', VStr ''ok'')]), (''b'', ?doc_b)]"
  have 1: "fst (validate_event_content ?event ?spec_b ?doc_b) = Inr False"
    by (simp add: validate_event_content.simps compare_event_fields_def
          Validation_get_custom_type_def event_validator_TYPE_MAPPING_def)
  have 2: "fst (validate_event_content ?event ?schema VNone) = Inr True"
    by (simp add: validate_event_content.simps compare_event_fields_def
          Validation_get_custom_type_def event_validator_TYPE_MAPPING_def)
  have 3: "subscript ?schema ''properties'' = Inr ?props" by simp
  have 4: "subscript ?props ''b'' = Inr ?spec_b" by simp
  have 5: "subscript ?event ''b'' = Inr ?doc_b" by simp
  from 1 2 3 4 5 show "\<exists>schema event props spec_b doc_b.
          subscript schema ''properties'' = Inr props
        \<and> subscript props ''b'' = Inr spec_b
        \<and> subscript event ''b'' = Inr doc_b
        \<and> fst (validate_event_content event spec_b doc_b) = Inr False
        \<and> fst (validate_event_content event schema VNone) = Inr True"
    by blast
qed

theorem first_nested_field_decides_witness:
  "compare_event_fields VNone
      (VDict [(''required'', VList [VStr ''n'', VStr ''a'', VStr ''b'']),
              (''properties'', VDict [(''n'', VDict [(''type'', VStr ''integer'')]),
                                      (''a'', VDict [(''type'', VStr ''object''),
                                                     (''required'', VList [])]),
                                      (''b'', VDict [(''type'', VStr ''object'')])])])
      (VDict ([(''n'', VInt 1)] @ (''a'', VDict [(''x'', VStr ''ok'')]) # [(''b'', VDict [])]))
     = (Inr True, [LogInfo FieldsRegistered])
   \<and> validate_event_items VNone
      (VDict [(''required'', VList [VStr ''n'', VStr ''a'', VStr ''b'']),
              (''properties'', VDict [(''n'', VDict [(''type'', VStr ''integer'')]),
                                      (''a'', VDict [(''type'', VStr ''object''),
                                                     (''required'', VList [])]),
                                      (''b'', VDict [(''type'', VStr ''object'')])])])
      [(''n'', VInt 1)] = (Inr True, [LogInfo ContentValidated])
   \<and> \<not> isinstance (VInt 1) TDict
   \<and> validate_event_content VNone
      (VDict [(''required'', VList [VStr ''n'', VStr ''a'', VStr ''b'']),
              (''properties'', VDict [(''n'', VDict [(''type'', VStr ''integer'')]),
                                      (''a'', VDict [(''type'', VStr ''object''),
                                                     (''required'', VList [])]),
                                      (''b'', VDict [(''type'', VStr ''object'')])])])
      (VDict ([(''n'', VInt 1)] @ (''a'', VDict [(''x'', VStr ''ok'')]) # [(''b'', VDict [])]))
     = (case validate_event_content VNone
               (VDict [(''type'', VStr ''object''), (''required'', VList [])])
               (VDict [(''x'', VStr ''ok'')]) of
          (r, lg') \<Rightarrow> (r, [LogInfo FieldsRegistered] @ lg'))
   \<and> validate_event_content VNone
               (VDict [(''type'', VStr ''object''), (''required'', VList [])])
               (VDict [(''x'', VStr ''ok'')]) = (Inr False, [LogError (Unregistered {VStr ''x''})])"
proof -
  let ?spec = "VDict [(''type'', VStr ''object''), (''required'', VList [])]"
  let ?props = "VDict [(''n'', VDict [(''type'', VStr ''integer'')]), (''a'', ?spec),
                       (''b'', VDict [(''type'', VStr ''object'')])]"
  let ?schema = "VDict [(''required'', VList [VStr ''n'', VStr ''a'', VStr ''b'']),
                        (''properties'', ?props)]"
  let ?pre = "[(''n'', VInt 1)]"
  let ?d = "[(''x'', VStr ''ok'')]"
  let ?post = "[(''b'', VDict [])]"
  have c: "compare_event_fields VNone ?schema (VDict (?pre @ (''a'', VDict ?d) # ?post))
             = (Inr True, [LogInfo FieldsRegistered])"
    by (simp add: compare_event_fields_def)
  have p: "validate_event_items VNone ?schema ?pre = (Inr True, [LogInfo ContentValidated])"
    by (simp add: validate_event_content.simps Validation_get_custom_type_def
          event_validator_TYPE_MAPPING_def)
  have nd: "\<forall>(k, v) \<in> set ?pre. \<not> isinstance v TDict" by simp
  have s1: "subscript ?schema ''properties'' = Inr ?props" by simp
  have s2: "subscript ?props ''a'' = Inr ?spec" by simp
  have s3: "subscript ?spec ''type'' = Inr (VStr ''object'')" by simp
  have r: "validate_event_content VNone ?spec (VDict ?d)
             = (Inr False, [LogError (Unregistered {VStr ''x''})])"
    by (simp add: validate_event_content.simps compare_event_fields_def)
  from first_nested_field_decides [of VNone ?schema ?pre "''a''" ?d ?post
         "[LogInfo FieldsRegistered]" "[LogInfo ContentValidated]" ?props ?spec]
       c p nd s1 s2 s3
  have "validate_event_content VNone ?schema (VDict (?pre @ (''a'', VDict ?d) # ?post)) =
        (case validate_event_content VNone ?spec (VDict ?d) of
           (r, lg') \<Rightarrow> (r, [LogInfo FieldsRegistered] @ lg'))"
    by blast
  moreover have "\<not> isinstance (VInt 1) TDict" by simp
  ultimately show ?thesis using c p r by blast
qed

text \<open>
  Claim C4, at two inputs the claim names: a schema without the \<open>properties\<close> key,
  and a schema whose field specification has no \<open>type\<close> entry. In both the field
  comparison passes and is logged, and then \<open>validate_event_content\<close> does not
  return a boolean: \<open>KeyError\<close> leaves the method, and no error is logged.
\<close>

theorem validate_event_content_raises_KeyError:
  "validate_event_content (VDict [(''a'', VStr ''x'')])
      (VDict [(''required'', VList [VStr ''a''])]) VNone
     = (Inl KeyError, [LogInfo FieldsRegistered])
   \<and> validate_event_content (VDict [(''a'', VStr ''x'')])
      (VDict [(''required'', VList [VStr ''a'']), (''properties'', VDict [(''a'', VDict [])])])
      VNone
     = (Inl KeyError, [LogInfo FieldsRegistered])"
  by (simp add: validate_event_content.simps compare_event_fields_def)

text \<open>
  Claim C5. For a schema whose \<open>required\<close> entry converts to the set \<open>R\<close> and a
  compared event (the argument, or the constructor's event when the argument is falsy)
  with keys \<open>ks\<close>, \<open>compare_event_fields\<close> returns the boolean \<open>R = E\<close>, where
  \<open>E\<close> is the set of the keys. When \<open>R - E\<close> is not empty it returns false and logs
  exactly one error, the missing fields, whether or not \<open>E - R\<close> is empty; the fields
  that are not registered are reported only when nothing is missing.
\<close>

theorem compare_event_fields_set_equality:
  assumes "subscript schema ''required'' = Inr req"
      and "py_set req = Inr R"
      and "py_keys (if \<not> truthy event0 then self_event else event0) = Inr ks"
  shows "fst (compare_event_fields self_event schema event0) = Inr (R = VStr ` set ks)
       \<and> (R - VStr ` set ks \<noteq> {} \<longrightarrow>
            compare_event_fields self_event schema event0 =
              (Inr False, [LogError (MissingRequired (R - VStr ` set ks))]))
       \<and> (R - VStr ` set ks = {} \<and> VStr ` set ks - R \<noteq> {} \<longrightarrow>
            compare_event_fields self_event schema event0 =
              (Inr False, [LogError (Unregistered (VStr ` set ks - R))]))
       \<and> (R = VStr ` set ks \<longrightarrow>
            compare_event_fields self_event schema event0 =
              (Inr True, [LogInfo FieldsRegistered]))"
proof -
  let ?E = "VStr ` set ks"
  have eq: "compare_event_fields self_event schema event0 =
        (if R - ?E \<noteq> {} then (Inr False, [LogError (MissingRequired (R - ?E))])
         else if ?E - R \<noteq> {} then (Inr False, [LogError (Unregistered (?E - R))])
         else (Inr True, [LogInfo FieldsRegistered]))"
    using assms unfolding compare_event_fields_def Let_def by simp
  show ?thesis
  proof (cases "R - ?E = {}")
    case missing: False
    then have "R \<noteq> ?E" by blast
    with missing show ?thesis unfolding eq by simp
  next
    case no_missing: True
    show ?thesis
    proof (cases "?E - R = {}")
      case True
      with no_missing have "R = ?E" by blast
      then show ?thesis unfolding eq by simp
    next
      case False
      then have "R \<noteq> ?E" by blast
      with no_missing False show ?thesis unfolding eq by simp
    qed
  qed
qed

theorem compare_event_fields_set_equality_witness:
  "subscript (VDict [(''required'', VList [VStr ''eid'', VStr ''age''])]) ''required''
     = Inr (VList [VStr ''eid'', VStr ''age''])
   \<and> py_set (VList [VStr ''eid'', VStr ''age'']) = Inr {VStr ''eid'', VStr ''age''}
   \<and> py_keys (if \<not> truthy VNone then VDict [(''eid'', VStr ''e1''), (''zip'', VInt 7)] else VNone)
     = Inr [''eid'', ''zip'']
   \<and> compare_event_fields (VDict [(''eid'', VStr ''e1''), (''zip'', VInt 7)])
        (VDict [(''required'', VList [VStr ''eid'', VStr ''age''])]) VNone
     = (Inr False, [LogError (MissingRequired {VStr ''age''})])"
proof -
  let ?schema = "VDict [(''required'', VList [VStr ''eid'', VStr ''age''])]"
  let ?event = "VDict [(''eid'', VStr ''e1''), (''zip'', VInt 7)]"
  have a: "subscript ?schema ''required'' = Inr (VList [VStr ''eid'', VStr ''age''])"
    by simp
  have b: "py_set (VList [VStr ''eid'', VStr ''age'']) = Inr {VStr ''eid'', VStr ''age''}"
    by simp
  have c: "py_keys (if \<not> truthy VNone then ?event else VNone) = Inr [''eid'', ''zip'']"
    by simp
  have d: "{VStr ''eid'', VStr ''age''} - VStr ` set [''eid'', ''zip''] = {VStr ''age''}"
    by auto
  from compare_event_fields_set_equality [OF a b c] d
  have "compare_event_fields ?event ?schema VNone
          = (Inr False, [LogError (MissingRequired {VStr ''age''})])"
    by simp
  with a b c show ?thesis by blast
qed

text \<open>
  Claim C9. An event argument that is the empty dictionary or \<open>None\<close> is replaced by
  the constructor's event, in \<open>validate_event_content\<close> and in
  \<open>compare_event_fields\<close>, without any log record: result and logs are those of the
  call on the constructor's event. Consequently a nested field whose value is \<open>{}\<close>
  is not rejected as empty. When the loop meets a field declared as \<open>object\<close> whose
  value is \<open>{}\<close>, it returns the validation of the whole top-level event against the
  sub-schema of that field. So does the method as a whole: for an event
  \<open>pre + {key: {}} + post\<close> whose field comparison passes and whose fields \<open>pre\<close>
  hold no dictionary and pass their type check, \<open>validate_event_content\<close> returns, after
  the log of the field comparison, result and logs of validating the constructor's event
  against the sub-schema of \<open>key\<close>; in the call without event argument the
  constructor's event is that very event. At the event \<open>{"address": {}}\<close>, with
  \<open>address\<close> an object that requires \<open>street\<close>, the method returns false and
  reports \<open>street\<close> as missing: the top-level event has no such field.
\<close>

theorem empty_event_replaced_by_self_event:
  "validate_event_content self_event schema (VDict []) =
     validate_event_content self_event schema self_event
   \<and> validate_event_content self_event schema VNone =
     validate_event_content self_event schema self_event
   \<and> compare_event_fields self_event schema (VDict []) =
     compare_event_fields self_event schema self_event
   \<and> compare_event_fields self_event schema VNone =
     compare_event_fields self_event schema self_event
   \<and> (subscript schema ''properties'' = Inr props
        \<and> subscript props key = Inr spec
        \<and> subscript spec ''type'' = Inr (VStr ''object'')
      \<longrightarrow> validate_event_items self_event schema ((key, VDict []) # rest) =
            validate_event_content self_event spec self_event)
   \<and> (compare_event_fields self_event schema (VDict (pre @ (key, VDict []) # post))
          = (Inr True, lg)
        \<and> validate_event_items self_event schema pre = (Inr True, lg0)
        \<and> (\<forall>(k, v) \<in> set pre. \<not> isinstance v TDict)
        \<and> subscript schema ''properties'' = Inr props
        \<and> subscript props key = Inr spec
        \<and> subscript spec ''type'' = Inr (VStr ''object'')
      \<longrightarrow> validate_event_content self_event schema (VDict (pre @ (key, VDict []) # post)) =
            (case validate_event_content self_event spec self_event of
               (r, lg') \<Rightarrow> (r, lg @ lg')))
   \<and> (compare_event_fields (VDict (pre @ (key, VDict []) # post)) schema VNone
          = (Inr True, lg)
        \<and> validate_event_items (VDict (pre @ (key, VDict []) # post)) schema pre
          = (Inr True, lg0)
        \<and> (\<forall>(k, v) \<in> set pre. \<not> isinstance v TDict)
        \<and> subscript schema ''properties'' = Inr props
        \<and> subscript props key = Inr spec
        \<and> subscript spec ''type'' = Inr (VStr ''object'')
      \<longrightarrow> validate_event_content (VDict (pre @ (key, VDict []) # post)) schema VNone =
            (case validate_event_content (VDict (pre @ (key, VDict []) # post)) spec
                    (VDict (pre @ (key, VDict []) # post)) of
               (r, lg') \<Rightarrow> (r, lg @ lg')))
   \<and> validate_event_content (VDict [(''address'', VDict [])])
        (VDict [(''required'', VList [VStr ''address'']),
                (''properties'',
                 VDict [(''address'', VDict [(''type'', VStr ''object''),
                                             (''required'', VList [VStr ''street''])])])])
        VNone
      = (Inr False, [LogInfo FieldsRegistered, LogError (MissingRequired {VStr ''street''})])"
proof -
  have empty: "validate_event_content se s (VDict []) = validate_event_content se s se"
    for se s
    by (simp add: validate_event_content.simps [of se s])
  have none: "validate_event_content se s VNone = validate_event_content se s se" for se s
    by (simp add: validate_event_content.simps [of se s])
  have cmp_empty: "compare_event_fields se s (VDict []) = compare_event_fields se s se" for se s
    by (simp add: compare_event_fields_def)
  have cmp_none: "compare_event_fields se s VNone = compare_event_fields se s se" for se s
    by (simp add: compare_event_fields_def)
  have loop: "validate_event_items se schema ((key, VDict []) # rest) =
              validate_event_content se spec se"
    if "subscript schema ''properties'' = Inr props" "subscript props key = Inr spec"
       "subscript spec ''type'' = Inr (VStr ''object'')" for se rest
    using that empty [of se spec]
    by (simp add: Validation_get_custom_type_object)
  have whole: "validate_event_content se schema (VDict (pre @ (key, VDict []) # post)) =
            (case validate_event_content se spec se of (r, lg') \<Rightarrow> (r, lg @ lg'))"
    if c: "compare_event_fields se schema (VDict (pre @ (key, VDict []) # post)) = (Inr True, lg)"
      and p: "validate_event_items se schema pre = (Inr True, lg0)"
      and nd: "\<forall>(k, v) \<in> set pre. \<not> isinstance v TDict"
      and s: "subscript schema ''properties'' = Inr props" "subscript props key = Inr spec"
             "subscript spec ''type'' = Inr (VStr ''object'')"
    for se
  proof -
    have "validate_event_items se schema (pre @ (key, VDict []) # post) =
          validate_event_items se schema ((key, VDict []) # post)"
      using p nd by (rule validate_event_items_passed_prefix)
    also have "\<dots> = validate_event_content se spec se"
      using s by (rule loop)
    finally show ?thesis
      using c by (simp add: validate_event_content.simps [of se schema])
  qed
  have top: "validate_event_content (VDict (pre @ (key, VDict []) # post)) schema VNone =
            (case validate_event_content (VDict (pre @ (key, VDict []) # post)) spec
                    (VDict (pre @ (key, VDict []) # post)) of
               (r, lg') \<Rightarrow> (r, lg @ lg'))"
    if c: "compare_event_fields (VDict (pre @ (key, VDict []) # post)) schema VNone
             = (Inr True, lg)"
      and p: "validate_event_items (VDict (pre @ (key, VDict []) # post)) schema pre
                = (Inr True, lg0)"
      and nd: "\<forall>(k, v) \<in> set pre. \<not> isinstance v TDict"
      and s: "subscript schema ''properties'' = Inr props" "subscript props key = Inr spec"
             "subscript spec ''type'' = Inr (VStr ''object'')"
  proof -
    let ?E = "VDict (pre @ (key, VDict []) # post)"
    from c have "compare_event_fields ?E schema ?E = (Inr True, lg)"
      by (simp only: cmp_none)
    from whole [OF this p nd s] show ?thesis
      by (simp only: none)
  qed
  have example: "validate_event_content (VDict [(''address'', VDict [])])
        (VDict [(''required'', VList [VStr ''address'']),
                (''properties'',
                 VDict [(''address'', VDict [(''type'', VStr ''object''),
                                             (''required'', VList [VStr ''street''])])])])
        VNone
      = (Inr False, [LogInfo FieldsRegistered, LogError (MissingRequired {VStr ''street''})])"
    by (simp add: validate_event_content.simps compare_event_fields_def
          Validation_get_custom_type_def event_validator_TYPE_MAPPING_def)
  show ?thesis
  proof (intro conjI impI)
    show "validate_event_content self_event schema (VDict []) =
          validate_event_content self_event schema self_event" by (rule empty)
    show "validate_event_content self_event schema VNone =
          validate_event_content self_event schema self_event" by (rule none)
    show "compare_event_fields self_event schema (VDict []) =
          compare_event_fields self_event schema self_event" by (rule cmp_empty)
    show "compare_event_fields self_event schema VNone =
          compare_event_fields self_event schema self_event" by (rule cmp_none)
    show "validate_event_items self_event schema ((key, VDict []) # rest) =
          validate_event_content self_event spec self_event"
      if "subscript schema ''properties'' = Inr props \<and> subscript props key = Inr spec
          \<and> subscript spec ''type'' = Inr (VStr ''object'')"
      using that by (intro loop) simp_all
    show "validate_event_content self_event schema (VDict (pre @ (key, VDict []) # post)) =
            (case validate_event_content self_event spec self_event of
               (r, lg') \<Rightarrow> (r, lg @ lg'))"
      if "compare_event_fields self_event schema (VDict (pre @ (key, VDict []) # post))
            = (Inr True, lg)
          \<and> validate_event_items self_event schema pre = (Inr True, lg0)
          \<and> (\<forall>(k, v) \<in> set pre. \<not> isinstance v TDict)
          \<and> subscript schema ''properties'' = Inr props
          \<and> subscript props key = Inr spec
          \<and> subscript spec ''type'' = Inr (VStr ''object'')"
      using that by (intro whole [of self_event]) simp_all
    show "validate_event_content (VDict (pre @ (key, VDict []) # post)) schema VNone =
            (case validate_event_content (VDict (pre @ (key, VDict []) # post)) spec
                    (VDict (pre @ (key, VDict []) # post)) of
               (r, lg') \<Rightarrow> (r, lg @ lg'))"
      if "compare_event_fields (VDict (pre @ (key, VDict []) # post)) schema VNone
            = (Inr True, lg)
          \<and> validate_event_items (VDict (pre @ (key, VDict []) # post)) schema pre
            = (Inr True, lg0)
          \<and> (\<forall>(k, v) \<in> set pre. \<not> isinstance v TDict)
          \<and> subscript schema ''properties'' = Inr props
          \<and> subscript props key = Inr spec
          \<and> subscript spec ''type'' = Inr (VStr ''object'')"
      using that by (intro top) simp_all
    show "validate_event_content (VDict [(''address'', VDict [])])
        (VDict [(''required'', VList [VStr ''address'']),
                (''properties'',
                 VDict [(''address'', VDict [(''type'', VStr ''object''),
                                             (''required'', VList [VStr ''street''])])])])
        VNone
      = (Inr False, [LogInfo FieldsRegistered, LogError (MissingRequired {VStr ''street''})])"
      by (rule example)
  qed
qed

theorem empty_event_replaced_by_self_event_witness:
  "subscript (VDict [(''required'', VList [VStr ''n'', VStr ''address'']),
                     (''properties'',
                      VDict [(''n'', VDict [(''type'', VStr ''integer'')]),
                             (''address'', VDict [(''type'', VStr ''object''),
                                                  (''required'', VList [VStr ''street''])])])])
             ''properties''
     = Inr (VDict [(''n'', VDict [(''type'', VStr ''integer'')]),
                   (''address'', VDict [(''type'', VStr ''object''),
                                        (''required'', VList [VStr ''street''])])])
   \<and> subscript (VDict [(''n'', VDict [(''type'', VStr ''integer'')]),
                       (''address'', VDict [(''type'', VStr ''object''),
                                            (''required'', VList [VStr ''street''])])])
                ''address''
     = Inr (VDict [(''type'', VStr ''object''), (''required'', VList [VStr ''street''])])
   \<and> subscript (VDict [(''type'', VStr ''object''), (''required'', VList [VStr ''street''])])
                ''type''
     = Inr (VStr ''object'')
   \<and> compare_event_fields (VDict ([(''n'', VInt 1)] @ (''address'', VDict []) # []))
        (VDict [(''required'', VList [VStr ''n'', VStr ''address'']),
                (''properties'',
                 VDict [(''n'', VDict [(''type'', VStr ''integer'')]),
                        (''address'', VDict [(''type'', VStr ''object''),
                                             (''required'', VList [VStr ''street''])])])])
        VNone
     = (Inr True, [LogInfo FieldsRegistered])
   \<and> \<not> isinstance (VInt 1) TDict
   \<and> validate_event_items (VDict ([(''n'', VInt 1)] @ (''address'', VDict []) # []))
        (VDict [(''required'', VList [VStr ''n'', VStr ''address'']),
                (''properties'',
                 VDict [(''n'', VDict [(''type'', VStr ''integer'')]),
                        (''address'', VDict [(''type'', VStr ''object''),
                                             (''required'', VList [VStr ''street''])])])])
        [(''address'', VDict [])]
     = validate_event_content (VDict ([(''n'', VInt 1)] @ (''address'', VDict []) # []))
         (VDict [(''type'', VStr ''object''), (''required'', VList [VStr ''street''])])
         (VDict ([(''n'', VInt 1)] @ (''address'', VDict []) # []))
   \<and> validate_event_content (VDict ([(''n'', VInt 1)] @ (''address'', VDict []) # []))
        (VDict [(''required'', VList [VStr ''n'', VStr ''address'']),
                (''properties'',
                 VDict [(''n'', VDict [(''type'', VStr ''integer'')]),
                        (''address'', VDict [(''type'', VStr ''object''),
                                             (''required'', VList [VStr ''street''])])])])
        VNone
     = (Inr False, [LogInfo FieldsRegistered, LogError (MissingRequired {VStr ''street''})])"
proof -
  let ?spec = "VDict [(''type'', VStr ''object''), (''required'', VList [VStr ''street''])]"
  let ?props = "VDict [(''n'', VDict [(''type'', VStr ''integer'')]), (''address'', ?spec)]"
  let ?schema = "VDict [(''required'', VList [VStr ''n'', VStr ''address'']),
                        (''properties'', ?props)]"
  let ?pre = "[(''n'', VInt 1)]"
  let ?event = "VDict (?pre @ (''address'', VDict []) # [])"
  have a: "subscript ?schema ''properties'' = Inr ?props" by simp
  have b: "subscript ?props ''address'' = Inr ?spec" by simp
  have c: "subscript ?spec ''type'' = Inr (VStr ''object'')" by simp
  have cmp: "compare_event_fields ?event ?schema VNone = (Inr True, [LogInfo FieldsRegistered])"
    by (simp add: compare_event_fields_def)
  have p: "validate_event_items ?event ?schema ?pre = (Inr True, [LogInfo ContentValidated])"
    by (simp add: Validation_get_custom_type_def event_validator_TYPE_MAPPING_def)
  have nd: "\<forall>(k, v) \<in> set ?pre. \<not> isinstance v TDict" by simp
  have ni: "\<not> isinstance (VInt 1) TDict" by simp
  note inst = empty_event_replaced_by_self_event [of ?event ?schema ?props "''address''" ?spec
                "[]" ?pre "[]" "[LogInfo FieldsRegistered]" "[LogInfo ContentValidated]"]
  from inst a b c
  have d: "validate_event_items ?event ?schema [(''address'', VDict [])] =
           validate_event_content ?event ?spec ?event"
    by blast
  from inst cmp p nd a b c
  have e: "validate_event_content ?event ?schema VNone =
           (case validate_event_content ?event ?spec ?event of
              (r, lg') \<Rightarrow> (r, [LogInfo FieldsRegistered] @ lg'))"
    by blast
  have f: "validate_event_content ?event ?spec ?event
             = (Inr False, [LogError (MissingRequired {VStr ''street''})])"
    by (simp add: validate_event_content.simps compare_event_fields_def)
  have g: "validate_event_content ?event ?schema VNone
             = (Inr False, [LogInfo FieldsRegistered, LogError (MissingRequired {VStr ''street''})])"
    unfolding e f by simp
  from a b c cmp ni d g show ?thesis by blast
qed

section \<open>Properties of the query builder\<close>

lemma fst_then_do:
  "fst (then_do m f) = (case fst m of Inl e \<Rightarrow> Inl e | Inr x \<Rightarrow> fst (f x))"
  by (simp add: then_do_def split: prod.splits sum.splits)

lemma snd_then_do:
  "snd (then_do m f) = snd m @ (case fst m of Inl e \<Rightarrow> [] | Inr x \<Rightarrow> snd (f x))"
  by (simp add: then_do_def split: prod.splits sum.splits)

lemma fst_clause_columns:
  "fst (clause_columns str_repr col_params query) =
     (if truthy col_params
      then (case fst (format_table_columns str_repr col_params []) of
              Inl e \<Rightarrow> Inl e
            | Inr cols \<Rightarrow> Inr (query @ ''\<newline>('' @ cols @ '')''))
      else Inr query)"
  by (simp add: clause_columns_def split: prod.splits sum.splits)

lemma fst_clause_comment:
  "fst (clause_comment str_repr tb_desc query) =
     Inr (query @ (if truthy tb_desc
                   then ''\<newline>COMMENT '' @ squote @ py_str str_repr tb_desc @ squote else []))"
  by (simp add: clause_comment_def)

lemma fst_clause_partition:
  "fst (clause_partition str_repr partition_params query) =
     (if truthy partition_params
      then (case fst (format_table_columns str_repr partition_params []) of
              Inl e \<Rightarrow> Inl e
            | Inr cols \<Rightarrow> Inr (query @ ''\<newline>PARTITIONED BY ('' @ cols @ '')''))
      else Inr query)"
  by (simp add: clause_partition_def split: prod.splits sum.splits)

lemma fst_clause_clustering:
  "fst (clause_clustering str_repr clustering_params num_buckets query) =
     (if truthy clustering_params \<and> truthy num_buckets
      then (case py_join_val '','' clustering_params of
              Inl e \<Rightarrow> Inl e
            | Inr cols \<Rightarrow>
               Inr (query @ ''\<newline>CLUSTERED BY ('' @ cols @ '') INTO ''
                      @ py_str str_repr num_buckets @ '' BUCKETS''))
      else Inr query)"
  by (simp add: clause_clustering_def split: sum.splits)

lemma fst_clause_row_format:
  "fst (clause_row_format str_repr row_format query) =
     Inr (query @ (if truthy row_format
                   then ''\<newline>ROW FORMAT '' @ squote @ py_str str_repr row_format @ squote
                   else []))"
  by (simp add: clause_row_format_def)

lemma fst_clause_file_format:
  "fst (clause_file_format str_repr file_format query) =
     Inr (query @ (if truthy file_format
                   then ''\<newline>STORED AS '' @ py_str str_repr file_format else []))"
  by (simp add: clause_file_format_def)

lemma fst_clause_serde:
  "fst (clause_serde str_repr serde_properties query) =
     (if truthy serde_properties
      then (case format_table_properties str_repr serde_properties of
              Inl e \<Rightarrow> Inl e
            | Inr props \<Rightarrow> Inr (query @ ''\<newline>WITH SERDEPROPERTIES ('' @ props @ '')''))
      else Inr query)"
  by (simp add: clause_serde_def split: sum.splits)

lemma fst_clause_location:
  "fst (clause_location str_repr location query) =
     Inr (query @ (if truthy location
                   then ''\<newline>LOCATION '' @ squote @ py_str str_repr location @ squote
                   else []))"
  by (simp add: clause_location_def)

lemma fst_clause_tbl_properties:
  "fst (clause_tbl_properties str_repr tbl_properties query) =
     (if truthy tbl_properties
      then (case format_table_properties str_repr tbl_properties of
              Inl e \<Rightarrow> Inl e
            | Inr props \<Rightarrow> Inr (query @ ''\<newline>TBLPROPERTIES ('' @ props @ '')''))
      else Inr query)"
  by (simp add: clause_tbl_properties_def split: sum.splits)

lemma appendsI_error: "(\<And>q. fst (f q) = Inl e) \<Longrightarrow> appends f"
  unfolding appends_def by blast

lemma appendsI_text: "(\<And>q. fst (f q) = Inr (q @ t)) \<Longrightarrow> appends f"
  unfolding appends_def by blast

lemma appends_then_do:
  assumes "appends f" and "appends g"
  shows "appends (\<lambda>q. then_do (f q) g)"
proof -
  from assms(1) consider e where "\<And>q. fst (f q) = Inl e" | t where "\<And>q. fst (f q) = Inr (q @ t)"
    unfolding appends_def by blast
  then show ?thesis
  proof cases
    case 1
    then show ?thesis by (intro appendsI_error [of _ e]) (simp add: fst_then_do)
  next
    case f: 2
    from assms(2) consider e where "\<And>q. fst (g q) = Inl e"
      | u where "\<And>q. fst (g q) = Inr (q @ u)"
      unfolding appends_def by blast
    then show ?thesis
    proof cases
      case 1
      then show ?thesis by (intro appendsI_error [of _ e]) (simp add: fst_then_do f)
    next
      case 2
      then show ?thesis by (intro appendsI_text [of _ "t @ u"]) (simp add: fst_then_do f)
    qed
  qed
qed

lemma appends_clause_row_format: "appends (clause_row_format str_repr v)"
  by (rule appendsI_text) (rule fst_clause_row_format)

lemma appends_clause_file_format: "appends (clause_file_format str_repr v)"
  by (rule appendsI_text) (rule fst_clause_file_format)

lemma appends_clause_location: "appends (clause_location str_repr v)"
  by (rule appendsI_text) (rule fst_clause_location)

lemma appends_clause_serde: "appends (clause_serde str_repr v)"
proof (cases "truthy v")
  case True
  show ?thesis
  proof (cases "format_table_properties str_repr v")
    case (Inl e)
    with True show ?thesis by (intro appendsI_error [of _ e]) (simp add: fst_clause_serde)
  next
    case (Inr props)
    with True show ?thesis
      by (intro appendsI_text [of _ "''\<newline>WITH SERDEPROPERTIES ('' @ props @ '')''"])
         (simp add: fst_clause_serde)
  qed
next
  case False
  then show ?thesis by (intro appendsI_text [of _ "[]"]) (simp add: fst_clause_serde)
qed

lemma appends_clause_tbl_properties: "appends (clause_tbl_properties str_repr v)"
proof (cases "truthy v")
  case True
  show ?thesis
  proof (cases "format_table_properties str_repr v")
    case (Inl e)
    with True show ?thesis
      by (intro appendsI_error [of _ e]) (simp add: fst_clause_tbl_properties)
  next
    case (Inr props)
    with True show ?thesis
      by (intro appendsI_text [of _ "''\<newline>TBLPROPERTIES ('' @ props @ '')''"])
         (simp add: fst_clause_tbl_properties)
  qed
next
  case False
  then show ?thesis by (intro appendsI_text [of _ "[]"]) (simp add: fst_clause_tbl_properties)
qed

lemma appends_finish:
  "appends (\<lambda>query. (Inr query, [LogInfo QueryEnd, LogInfo (QueryText query)]))"
  by (intro appendsI_text [of _ "[]"]) simp

lemma Query_get_custom_type_no_warning:
  "filter is_warning (snd (Query_get_custom_type ty m)) = []"
  by (simp add: Query_get_custom_type_def Let_def split: option.splits)

lemma format_table_columns_loop_no_warning:
  assumes "\<And>v sep. size v < size (VDict items) \<Longrightarrow>
             filter is_warning (snd (format_table_columns str_repr v sep)) = []"
  shows "filter is_warning (snd (format_table_columns_loop str_repr items separator acc)) = []"
  using assms
proof (induction items arbitrary: acc)
  case Nil
  then show ?case by simp
next
  case (Cons kv rest)
  obtain key val where kv: "kv = (key, val)" by (cases kv)
  have rest: "filter is_warning lg = []"
    if "format_table_columns_loop str_repr rest separator a = (r, lg)" for a r lg
  proof -
    have "filter is_warning (snd (format_table_columns_loop str_repr rest separator a)) = []"
      by (rule Cons.IH) (rule Cons.prems, simp)
    with that show ?thesis by simp
  qed
  have nested: "filter is_warning lg = []"
    if "subscript val ''properties'' = Inr props"
       "format_table_columns str_repr props '':'' = (r, lg)" for props r lg
  proof -
    have "filter is_warning (snd (format_table_columns str_repr props '':'')) = []"
      using size_subscript [OF that(1)] by (intro Cons.prems) (simp add: kv)
    with that(2) show ?thesis by simp
  qed
  have get: "filter is_warning lg = []" if "Query_get_custom_type ty None = (r, lg)" for ty r lg
    using Query_get_custom_type_no_warning [of ty None] that by simp
  show ?case
    unfolding kv format_table_columns_loop.simps
    by (auto simp: Let_def split: sum.splits prod.splits if_splits dest: rest nested get)
qed

lemma format_table_columns_no_warning:
  "filter is_warning (snd (format_table_columns str_repr col_dict separator)) = []"
proof (induction "size col_dict" arbitrary: col_dict separator rule: less_induct)
  case less
  show ?case
  proof (cases "py_items col_dict")
    case (Inl e)
    then show ?thesis by (simp add: format_table_columns.simps)
  next
    case (Inr items)
    then have c: "col_dict = VDict items" by (cases col_dict) auto
    have "filter is_warning (snd (format_table_columns_loop str_repr items separator [])) = []"
      by (rule format_table_columns_loop_no_warning) (rule less, simp add: c)
    with Inr show ?thesis by (simp add: format_table_columns.simps)
  qed
qed

lemma then_do_assoc: "then_do (then_do m f) g = then_do m (\<lambda>x. then_do (f x) g)"
  by (auto simp: then_do_def split: prod.splits sum.splits)

lemma create_table_split:
  "create_table str_repr db_name tb_name col_params tb_desc partition_params clustering_params
       num_buckets row_format file_format serde_properties location tbl_properties =
     then_do (clauses_before_clustering str_repr db_name tb_name col_params tb_desc
                partition_params)
    (\<lambda>query. then_do (clause_clustering str_repr clustering_params num_buckets query)
               (clauses_after_clustering str_repr row_format file_format serde_properties
                  location tbl_properties))"
  unfolding create_table_def clauses_before_clustering_def then_do_assoc
  by (simp add: clauses_after_clustering_def [abs_def])

lemma appends_clauses_after_clustering:
  "appends (clauses_after_clustering str_repr row_format file_format serde_properties location
              tbl_properties)"
  unfolding clauses_after_clustering_def [abs_def]
  by (intro appends_then_do appends_clause_row_format appends_clause_file_format
        appends_clause_serde appends_clause_location appends_clause_tbl_properties
        appends_finish)

lemma clauses_after_clustering_absent:
  "clauses_after_clustering str_repr VNone VNone VNone VNone VNone query =
     (Inr query, [LogInfo QueryEnd, LogInfo (QueryText query)])"
  by (simp add: clauses_after_clustering_def then_do_def clause_row_format_def
        clause_file_format_def clause_serde_def clause_location_def clause_tbl_properties_def)

lemma no_warning_then_do:
  "filter is_warning (snd m) = [] \<Longrightarrow> (\<And>x. filter is_warning (snd (f x)) = []) \<Longrightarrow>
   filter is_warning (snd (then_do m f)) = []"
  by (simp add: snd_then_do split: sum.splits)

lemma no_warning_clause_columns:
  "filter is_warning (snd (clause_columns str_repr v q)) = []"
  using format_table_columns_no_warning [of str_repr v "[]"]
  by (cases "format_table_columns str_repr v []")
     (auto simp: clause_columns_def split: sum.splits)

lemma no_warning_clause_partition:
  "filter is_warning (snd (clause_partition str_repr v q)) = []"
  using format_table_columns_no_warning [of str_repr v "[]"]
  by (cases "format_table_columns str_repr v []")
     (auto simp: clause_partition_def split: sum.splits)

lemma no_warning_clauses_before_clustering:
  "filter is_warning (snd (clauses_before_clustering str_repr db_name tb_name col_params tb_desc
                             partition_params)) = []"
  unfolding clauses_before_clustering_def
  by (intro no_warning_then_do no_warning_clause_columns no_warning_clause_partition)
     (simp_all add: clause_comment_def)

lemma no_warning_clauses_after_clustering:
  "filter is_warning (snd (clauses_after_clustering str_repr row_format file_format
                             serde_properties location tbl_properties q)) = []"
  unfolding clauses_after_clustering_def
  by (intro no_warning_then_do)
     (simp_all add: clause_row_format_def clause_file_format_def clause_serde_def
        clause_location_def clause_tbl_properties_def split: sum.splits)

lemma warnings_create_table:
  "filter is_warning (snd (create_table str_repr db_name tb_name col_params tb_desc
       partition_params clustering_params num_buckets row_format file_format serde_properties
       location tbl_properties)) =
     (case fst (clauses_before_clustering str_repr db_name tb_name col_params tb_desc
                  partition_params) of
        Inl e \<Rightarrow> []
      | Inr q \<Rightarrow> if truthy clustering_params \<noteq> truthy num_buckets
                 then [LogWarning ClusteringNeedsBoth] else [])"
  unfolding create_table_split
  by (auto simp: snd_then_do no_warning_clauses_before_clustering
        no_warning_clauses_after_clustering clause_clustering_def
        split: sum.splits)

lemma fst_create_table:
  "fst (create_table str_repr db_name tb_name col_params tb_desc partition_params
          clustering_params num_buckets row_format file_format serde_properties location
          tbl_properties) =
     (case fst (clauses_before_clustering str_repr db_name tb_name col_params tb_desc
                  partition_params) of
        Inl e \<Rightarrow> Inl e
      | Inr q \<Rightarrow>
         (case fst (clause_clustering str_repr clustering_params num_buckets q) of
            Inl e \<Rightarrow> Inl e
          | Inr q' \<Rightarrow> fst (clauses_after_clustering str_repr row_format file_format
                             serde_properties location tbl_properties q')))"
  unfolding create_table_split fst_then_do ..

lemma create_table_absent:
  "create_table str_repr db_name tb_name VNone VNone VNone VNone VNone VNone VNone VNone
           VNone VNone
         = (Inr (''CREATE EXTERNAL TABLE IF NOT EXISTS '' @ db_name @ ''.'' @ tb_name),
            [LogInfo QueryStart, LogInfo IncludedNames, LogInfo QueryEnd,
             LogInfo (QueryText (''CREATE EXTERNAL TABLE IF NOT EXISTS '' @ db_name @ ''.''
                                  @ tb_name))])"
    by (simp add: create_table_def then_do_def clause_columns_def clause_comment_def
          clause_partition_def clause_clustering_def clause_row_format_def
          clause_file_format_def clause_serde_def clause_location_def
          clause_tbl_properties_def)

text \<open>
  Claim C3, at two inputs of the kind the claim names: a field map with a well-formed
  field and a field without \<open>type\<close>, and one with a field without
  \<open>description\<close> before a well-formed field. The handlers of
  \<open>format_table_columns\<close> catch \<open>NameError\<close>, the missing key raises
  \<open>KeyError\<close>: the exception leaves the method, nothing is rendered for the sibling
  field and nothing is logged.
\<close>

theorem format_table_columns_raises_KeyError:
  "format_table_columns str_repr
      (VDict [(''name'', VDict [(''type'', VStr ''string''), (''description'', VStr ''d'')]),
              (''age'', VDict [(''description'', VStr ''d'')])]) []
     = (Inl KeyError, [])
   \<and> format_table_columns str_repr
      (VDict [(''name'', VDict [(''type'', VStr ''string'')]),
              (''age'', VDict [(''type'', VStr ''integer''), (''description'', VStr ''d'')])]) []
     = (Inl KeyError, [])"
  by (simp add: format_table_columns.simps Query_get_custom_type_def
        json_schema_to_hive_TYPE_MAPPING_def)

text \<open>
  Claim C6. An input counts as supplied when it is truthy, which is what the \<open>if\<close>
  statements test. When the clustering columns and the bucket count are not both supplied,
  \<open>create_table\<close> returns what it returns without any clustering input, so no
  clustering text is in the query. When both are supplied (and the columns join to
  \<open>cols\<close>) and the build without them succeeds with \<open>q0\<close>, the query is
  \<open>q0\<close> with the clause \<open>CLUSTERED BY (cols) INTO n BUCKETS\<close> inserted right
  after the part \<open>pre\<close> that the column, comment and partition inputs produce. When
  exactly one is supplied and the build without them succeeds, the build succeeds with the
  same query and logs exactly one warning; when both or none are supplied no warning is
  logged.
\<close>

theorem clustering_clause_needs_both:
  "(\<not> (truthy clustering_params \<and> truthy num_buckets) \<longrightarrow>
      fst (create_table str_repr db_name tb_name col_params tb_desc partition_params
             clustering_params num_buckets row_format file_format serde_properties location
             tbl_properties) =
      fst (create_table str_repr db_name tb_name col_params tb_desc partition_params
             VNone VNone row_format file_format serde_properties location tbl_properties))
   \<and> (truthy clustering_params \<and> truthy num_buckets
        \<and> py_join_val '','' clustering_params = Inr cols
        \<and> fst (create_table str_repr db_name tb_name col_params tb_desc partition_params
                  VNone VNone row_format file_format serde_properties location tbl_properties)
            = Inr q0 \<longrightarrow>
      (\<exists>pre post.
          fst (create_table str_repr db_name tb_name col_params tb_desc partition_params
                 VNone VNone VNone VNone VNone VNone VNone) = Inr pre
        \<and> q0 = pre @ post
        \<and> fst (create_table str_repr db_name tb_name col_params tb_desc partition_params
                 clustering_params num_buckets row_format file_format serde_properties location
                 tbl_properties) =
            Inr (pre @ ''\<newline>CLUSTERED BY ('' @ cols @ '') INTO ''
                   @ py_str str_repr num_buckets @ '' BUCKETS'' @ post)))
   \<and> (truthy clustering_params \<noteq> truthy num_buckets
        \<and> fst (create_table str_repr db_name tb_name col_params tb_desc partition_params
                  VNone VNone row_format file_format serde_properties location tbl_properties)
            = Inr q0 \<longrightarrow>
        fst (create_table str_repr db_name tb_name col_params tb_desc partition_params
               clustering_params num_buckets row_format file_format serde_properties location
               tbl_properties) = Inr q0
      \<and> filter is_warning
          (snd (create_table str_repr db_name tb_name col_params tb_desc partition_params
                  clustering_params num_buckets row_format file_format serde_properties
                  location tbl_properties)) = [LogWarning ClusteringNeedsBoth])
   \<and> (truthy clustering_params = truthy num_buckets \<longrightarrow>
        filter is_warning
          (snd (create_table str_repr db_name tb_name col_params tb_desc partition_params
                  clustering_params num_buckets row_format file_format serde_properties
                  location tbl_properties)) = [])"
proof -
  let ?before = "clauses_before_clustering str_repr db_name tb_name col_params tb_desc
                   partition_params"
  let ?after = "clauses_after_clustering str_repr row_format file_format serde_properties
                  location tbl_properties"
  let ?build = "\<lambda>cp nb. create_table str_repr db_name tb_name col_params tb_desc
                   partition_params cp nb row_format file_format serde_properties location
                   tbl_properties"
  have absent: "fst (clause_clustering str_repr VNone VNone q) = Inr q" for q
    by (simp add: fst_clause_clustering)
  have skipped: "fst (?build clustering_params num_buckets) = fst (?build VNone VNone)"
    if "\<not> (truthy clustering_params \<and> truthy num_buckets)"
  proof -
    have "fst (clause_clustering str_repr clustering_params num_buckets q) = Inr q" for q
      using that by (auto simp: fst_clause_clustering)
    then show ?thesis
      unfolding fst_create_table by (simp add: absent split: sum.splits)
  qed
  have reached: "\<exists>q. fst ?before = Inr q \<and> fst (?after q) = Inr q0"
    if "fst (?build VNone VNone) = Inr q0"
    using that unfolding fst_create_table
    by (simp add: absent split: sum.splits)
  have included: "\<exists>pre post.
          fst (create_table str_repr db_name tb_name col_params tb_desc partition_params
                 VNone VNone VNone VNone VNone VNone VNone) = Inr pre
        \<and> q0 = pre @ post
        \<and> fst (?build clustering_params num_buckets) =
            Inr (pre @ ''\<newline>CLUSTERED BY ('' @ cols @ '') INTO ''
                   @ py_str str_repr num_buckets @ '' BUCKETS'' @ post)"
    if both: "truthy clustering_params" "truthy num_buckets"
      and join: "py_join_val '','' clustering_params = Inr cols"
      and ok: "fst (?build VNone VNone) = Inr q0"
  proof -
    from reached [OF ok] obtain q where q: "fst ?before = Inr q" and a: "fst (?after q) = Inr q0"
      by blast
    from appends_clauses_after_clustering [of str_repr row_format file_format serde_properties
           location tbl_properties] a
    obtain t where t: "\<And>x. fst (?after x) = Inr (x @ t)"
      unfolding appends_def by fastforce
    have "fst (create_table str_repr db_name tb_name col_params tb_desc partition_params
                 VNone VNone VNone VNone VNone VNone VNone) = Inr q"
      unfolding fst_create_table
      by (simp add: q absent clauses_after_clustering_absent)
    moreover have "q0 = q @ t" using a t by simp
    moreover have "fst (?build clustering_params num_buckets) =
            Inr (q @ ''\<newline>CLUSTERED BY ('' @ cols @ '') INTO ''
                   @ py_str str_repr num_buckets @ '' BUCKETS'' @ t)"
      unfolding fst_create_table
      by (simp add: q fst_clause_clustering both join t)
    ultimately show ?thesis by blast
  qed
  have warned: "filter is_warning (snd (?build clustering_params num_buckets))
                  = [LogWarning ClusteringNeedsBoth]"
    if "truthy clustering_params \<noteq> truthy num_buckets" "fst (?build VNone VNone) = Inr q0"
    using reached [OF that(2)] that(1) unfolding warnings_create_table by auto
  have silent: "filter is_warning (snd (?build clustering_params num_buckets)) = []"
    if "truthy clustering_params = truthy num_buckets"
    using that unfolding warnings_create_table by (simp split: sum.splits)
  from skipped included warned silent show ?thesis
    by (intro conjI impI) (blast, blast, metis, blast, blast)
qed

theorem clustering_clause_needs_both_witness:
  "\<forall>str_repr.
     fst (create_table str_repr ''db_people'' ''tb_user'' VNone VNone VNone
            (VList [VStr ''age'']) VNone VNone VNone VNone VNone VNone)
       = Inr ''CREATE EXTERNAL TABLE IF NOT EXISTS db_people.tb_user''
   \<and> filter is_warning
       (snd (create_table str_repr ''db_people'' ''tb_user'' VNone VNone VNone
               (VList [VStr ''age'']) VNone VNone VNone VNone VNone VNone))
       = [LogWarning ClusteringNeedsBoth]
   \<and> (\<exists>pre post.
          fst (create_table str_repr ''db_people'' ''tb_user'' VNone VNone VNone
                 VNone VNone VNone VNone VNone VNone VNone) = Inr pre
        \<and> ''CREATE EXTERNAL TABLE IF NOT EXISTS db_people.tb_user'' = pre @ post
        \<and> fst (create_table str_repr ''db_people'' ''tb_user'' VNone VNone VNone
                 (VList [VStr ''age'']) (VInt 32) VNone VNone VNone VNone VNone) =
            Inr (pre @ ''\<newline>CLUSTERED BY ('' @ ''age'' @ '') INTO ''
                   @ py_str str_repr (VInt 32) @ '' BUCKETS'' @ post))"
proof
  fix str_repr :: "string \<Rightarrow> string"
  let ?q0 = "''CREATE EXTERNAL TABLE IF NOT EXISTS db_people.tb_user''"
  have base: "fst (create_table str_repr ''db_people'' ''tb_user'' VNone VNone VNone
                     VNone VNone VNone VNone VNone VNone VNone) = Inr ?q0"
    by (simp add: create_table_absent)
  have one: "truthy (VList [VStr ''age'']) \<noteq> truthy VNone" by simp
  have both: "truthy (VList [VStr ''age''])" "truthy (VInt 32)" by simp_all
  have j: "py_join_val '','' (VList [VStr ''age'']) = Inr ''age''" by simp
  note inst = clustering_clause_needs_both [of _ _ str_repr "''db_people''" "''tb_user''"
               VNone VNone VNone VNone VNone VNone VNone VNone "''age''" ?q0]
  from inst [of "VList [VStr ''age'']" VNone] one base
  have a: "fst (create_table str_repr ''db_people'' ''tb_user'' VNone VNone VNone
                  (VList [VStr ''age'']) VNone VNone VNone VNone VNone VNone) = Inr ?q0
         \<and> filter is_warning
             (snd (create_table str_repr ''db_people'' ''tb_user'' VNone VNone VNone
                     (VList [VStr ''age'']) VNone VNone VNone VNone VNone VNone))
             = [LogWarning ClusteringNeedsBoth]"
    by blast
  from inst [of "VList [VStr ''age'']" "VInt 32"] both j base
  have b: "\<exists>pre post.
          fst (create_table str_repr ''db_people'' ''tb_user'' VNone VNone VNone
                 VNone VNone VNone VNone VNone VNone VNone) = Inr pre
        \<and> ?q0 = pre @ post
        \<and> fst (create_table str_repr ''db_people'' ''tb_user'' VNone VNone VNone
                 (VList [VStr ''age'']) (VInt 32) VNone VNone VNone VNone VNone) =
            Inr (pre @ ''\<newline>CLUSTERED BY ('' @ ''age'' @ '') INTO ''
                   @ py_str str_repr (VInt 32) @ '' BUCKETS'' @ post)"
    by blast
  from a b show "fst (create_table str_repr ''db_people'' ''tb_user'' VNone VNone VNone
            (VList [VStr ''age'']) VNone VNone VNone VNone VNone VNone)
       = Inr ?q0
   \<and> filter is_warning
       (snd (create_table str_repr ''db_people'' ''tb_user'' VNone VNone VNone
               (VList [VStr ''age'']) VNone VNone VNone VNone VNone VNone))
       = [LogWarning ClusteringNeedsBoth]
   \<and> (\<exists>pre post.
          fst (create_table str_repr ''db_people'' ''tb_user'' VNone VNone VNone
                 VNone VNone VNone VNone VNone VNone VNone) = Inr pre
        \<and> ?q0 = pre @ post
        \<and> fst (create_table str_repr ''db_people'' ''tb_user'' VNone VNone VNone
                 (VList [VStr ''age'']) (VInt 32) VNone VNone VNone VNone VNone) =
            Inr (pre @ ''\<newline>CLUSTERED BY ('' @ ''age'' @ '') INTO ''
                   @ py_str str_repr (VInt 32) @ '' BUCKETS'' @ post))"
    by blast
qed

text \<open>
  Claim C7. With every optional parameter absent \<open>create_table\<close> returns exactly
  \<open>CREATE EXTERNAL TABLE IF NOT EXISTS db.tb\<close>. In general, when the column and
  partition maps render to \<open>cols\<close> and \<open>parts\<close>, the clustering columns join to
  \<open>clus\<close> and the two property maps render to \<open>serde\<close> and \<open>tbl\<close>, the
  query is the header followed by the clauses of the supplied (truthy) inputs in the
  order columns, comment, partition, clustering, row format, stored-as, serde properties,
  location, table properties.
\<close>

theorem create_table_clause_order:
  assumes "truthy col_params \<longrightarrow> fst (format_table_columns str_repr col_params []) = Inr cols"
      and "truthy partition_params \<longrightarrow>
             fst (format_table_columns str_repr partition_params []) = Inr parts"
      and "truthy clustering_params \<and> truthy num_buckets \<longrightarrow>
             py_join_val '','' clustering_params = Inr clus"
      and "truthy serde_properties \<longrightarrow>
             format_table_properties str_repr serde_properties = Inr serde"
      and "truthy tbl_properties \<longrightarrow>
             format_table_properties str_repr tbl_properties = Inr tbl"
  shows "create_table str_repr db_name tb_name VNone VNone VNone VNone VNone VNone VNone VNone
           VNone VNone
         = (Inr (''CREATE EXTERNAL TABLE IF NOT EXISTS '' @ db_name @ ''.'' @ tb_name),
            [LogInfo QueryStart, LogInfo IncludedNames, LogInfo QueryEnd,
             LogInfo (QueryText (''CREATE EXTERNAL TABLE IF NOT EXISTS '' @ db_name @ ''.''
                                  @ tb_name))])
       \<and> fst (create_table str_repr db_name tb_name col_params tb_desc partition_params
                 clustering_params num_buckets row_format file_format serde_properties location
                 tbl_properties)
         = Inr (''CREATE EXTERNAL TABLE IF NOT EXISTS '' @ db_name @ ''.'' @ tb_name
                @ (if truthy col_params then ''\<newline>('' @ cols @ '')'' else [])
                @ (if truthy tb_desc
                   then ''\<newline>COMMENT '' @ squote @ py_str str_repr tb_desc @ squote else [])
                @ (if truthy partition_params
                   then ''\<newline>PARTITIONED BY ('' @ parts @ '')'' else [])
                @ (if truthy clustering_params \<and> truthy num_buckets
                   then ''\<newline>CLUSTERED BY ('' @ clus @ '') INTO ''
                          @ py_str str_repr num_buckets @ '' BUCKETS''
                   else [])
                @ (if truthy row_format
                   then ''\<newline>ROW FORMAT '' @ squote @ py_str str_repr row_format @ squote
                   else [])
                @ (if truthy file_format
                   then ''\<newline>STORED AS '' @ py_str str_repr file_format else [])
                @ (if truthy serde_properties
                   then ''\<newline>WITH SERDEPROPERTIES ('' @ serde @ '')'' else [])
                @ (if truthy location
                   then ''\<newline>LOCATION '' @ squote @ py_str str_repr location @ squote
                   else [])
                @ (if truthy tbl_properties
                   then ''\<newline>TBLPROPERTIES ('' @ tbl @ '')'' else []))"
proof (rule conjI)
  show "create_table str_repr db_name tb_name VNone VNone VNone VNone VNone VNone VNone VNone
           VNone VNone
         = (Inr (''CREATE EXTERNAL TABLE IF NOT EXISTS '' @ db_name @ ''.'' @ tb_name),
            [LogInfo QueryStart, LogInfo IncludedNames, LogInfo QueryEnd,
             LogInfo (QueryText (''CREATE EXTERNAL TABLE IF NOT EXISTS '' @ db_name @ ''.''
                                  @ tb_name))])"
    by (simp add: create_table_def then_do_def clause_columns_def clause_comment_def
          clause_partition_def clause_clustering_def clause_row_format_def
          clause_file_format_def clause_serde_def clause_location_def
          clause_tbl_properties_def)
next
  have 1: "fst (clause_columns str_repr col_params q) =
             Inr (q @ (if truthy col_params then ''\<newline>('' @ cols @ '')'' else []))" for q
    using assms(1) by (simp add: fst_clause_columns)
  have 3: "fst (clause_partition str_repr partition_params q) =
             Inr (q @ (if truthy partition_params
                       then ''\<newline>PARTITIONED BY ('' @ parts @ '')'' else []))" for q
    using assms(2) by (simp add: fst_clause_partition)
  have 4: "fst (clause_clustering str_repr clustering_params num_buckets q) =
             Inr (q @ (if truthy clustering_params \<and> truthy num_buckets
                       then ''\<newline>CLUSTERED BY ('' @ clus @ '') INTO ''
                              @ py_str str_repr num_buckets @ '' BUCKETS''
                       else []))" for q
    using assms(3) by (simp add: fst_clause_clustering)
  have 7: "fst (clause_serde str_repr serde_properties q) =
             Inr (q @ (if truthy serde_properties
                       then ''\<newline>WITH SERDEPROPERTIES ('' @ serde @ '')'' else []))" for q
    using assms(4) by (simp add: fst_clause_serde)
  have 9: "fst (clause_tbl_properties str_repr tbl_properties q) =
             Inr (q @ (if truthy tbl_properties
                       then ''\<newline>TBLPROPERTIES ('' @ tbl @ '')'' else []))" for q
    using assms(5) by (simp add: fst_clause_tbl_properties)
  show "fst (create_table str_repr db_name tb_name col_params tb_desc partition_params
                 clustering_params num_buckets row_format file_format serde_properties location
                 tbl_properties)
         = Inr (''CREATE EXTERNAL TABLE IF NOT EXISTS '' @ db_name @ ''.'' @ tb_name
                @ (if truthy col_params then ''\<newline>('' @ cols @ '')'' else [])
                @ (if truthy tb_desc
                   then ''\<newline>COMMENT '' @ squote @ py_str str_repr tb_desc @ squote else [])
                @ (if truthy partition_params
                   then ''\<newline>PARTITIONED BY ('' @ parts @ '')'' else [])
                @ (if truthy clustering_params \<and> truthy num_buckets
                   then ''\<newline>CLUSTERED BY ('' @ clus @ '') INTO ''
                          @ py_str str_repr num_buckets @ '' BUCKETS''
                   else [])
                @ (if truthy row_format
                   then ''\<newline>ROW FORMAT '' @ squote @ py_str str_repr row_format @ squote
                   else [])
                @ (if truthy file_format
                   then ''\<newline>STORED AS '' @ py_str str_repr file_format else [])
                @ (if truthy serde_properties
                   then ''\<newline>WITH SERDEPROPERTIES ('' @ serde @ '')'' else [])
                @ (if truthy location
                   then ''\<newline>LOCATION '' @ squote @ py_str str_repr location @ squote
                   else [])
                @ (if truthy tbl_properties
                   then ''\<newline>TBLPROPERTIES ('' @ tbl @ '')'' else []))"
    unfolding create_table_def fst_then_do 1 3 4 7 9 fst_clause_comment fst_clause_row_format
      fst_clause_file_format fst_clause_location
    by (simp only: fst_conv sum.case append_assoc)
qed

theorem create_table_clause_order_witness:
  "\<forall>str_repr.
     fst (create_table str_repr ''db_people'' ''tb_user''
            (VDict [(''age'', VDict [(''type'', VStr ''integer''), (''description'', VStr ''d'')])])
            (VStr ''people'')
            (VDict [(''age'', VDict [(''type'', VStr ''integer''), (''description'', VStr ''d'')])])
            (VList [VStr ''age''])
            (VInt 32)
            (VStr ''SERDE'')
            (VStr ''PARQUET'')
            (VDict [(''serialization.format'', VStr ''1'')])
            (VStr ''s3://iti-query-results/'')
            (VDict [(''has_encrypted_data'', VBool True)]))
     = Inr (''CREATE EXTERNAL TABLE IF NOT EXISTS db_people.tb_user''
            @ ''\<newline>(age tinyint COMMENT 'd')''
            @ ''\<newline>COMMENT 'people'' @ squote
            @ ''\<newline>PARTITIONED BY (age tinyint COMMENT 'd')''
            @ ''\<newline>CLUSTERED BY (age) INTO 32 BUCKETS''
            @ ''\<newline>ROW FORMAT 'SERDE'' @ squote
            @ ''\<newline>STORED AS PARQUET''
            @ ''\<newline>WITH SERDEPROPERTIES ('serialization.format' = '1')''
            @ ''\<newline>LOCATION 's3://iti-query-results/'' @ squote
            @ ''\<newline>TBLPROPERTIES ('has_encrypted_data' = 'True')'')"
proof
  fix str_repr :: "string \<Rightarrow> string"
  let ?cols = "VDict [(''age'', VDict [(''type'', VStr ''integer''), (''description'', VStr ''d'')])]"
  let ?serde = "VDict [(''serialization.format'', VStr ''1'')]"
  let ?tbl = "VDict [(''has_encrypted_data'', VBool True)]"
  have c: "fst (format_table_columns str_repr ?cols []) = Inr (''age tinyint COMMENT 'd'' @ squote)"
    by (simp add: format_table_columns.simps Query_get_custom_type_def
          json_schema_to_hive_TYPE_MAPPING_def)
  have j: "py_join_val '','' (VList [VStr ''age'']) = Inr ''age''" by simp
  have s: "format_table_properties str_repr ?serde
             = Inr (squote @ ''serialization.format' = '1'' @ squote)"
    by (simp add: format_table_properties_def)
  have t: "format_table_properties str_repr ?tbl
             = Inr (squote @ ''has_encrypted_data' = 'True'' @ squote)"
    by (simp add: format_table_properties_def)
  from create_table_clause_order [of ?cols str_repr "''age tinyint COMMENT 'd'' @ squote"
         ?cols "''age tinyint COMMENT 'd'' @ squote" "VList [VStr ''age'']" "VInt 32" "''age''"
         ?serde "squote @ ''serialization.format' = '1'' @ squote"
         ?tbl "squote @ ''has_encrypted_data' = 'True'' @ squote"
         "''db_people''" "''tb_user''" "VStr ''people''" "VStr ''SERDE''" "VStr ''PARQUET''"
         "VStr ''s3://iti-query-results/''"]
       c j s t
  show "fst (create_table str_repr ''db_people'' ''tb_user'' ?cols (VStr ''people'') ?cols
            (VList [VStr ''age'']) (VInt 32) (VStr ''SERDE'') (VStr ''PARQUET'') ?serde
            (VStr ''s3://iti-query-results/'') ?tbl)
     = Inr (''CREATE EXTERNAL TABLE IF NOT EXISTS db_people.tb_user''
            @ ''\<newline>(age tinyint COMMENT 'd')''
            @ ''\<newline>COMMENT 'people'' @ squote
            @ ''\<newline>PARTITIONED BY (age tinyint COMMENT 'd')''
            @ ''\<newline>CLUSTERED BY (age) INTO 32 BUCKETS''
            @ ''\<newline>ROW FORMAT 'SERDE'' @ squote
            @ ''\<newline>STORED AS PARQUET''
            @ ''\<newline>WITH SERDEPROPERTIES ('serialization.format' = '1')''
            @ ''\<newline>LOCATION 's3://iti-query-results/'' @ squote
            @ ''\<newline>TBLPROPERTIES ('has_encrypted_data' = 'True')'')"
    by (simp add: py_str_int_def nat_digits.simps)
qed

text \<open>
  Claim C8. \<open>format_table_properties\<close> of a dictionary is the comma-joined list
  of \<open>'key' = 'value'\<close> with every value rendered by \<open>str\<close>; the boolean
  \<open>True\<close> renders as the text \<open>True\<close>, so \<open>{"has_encrypted_data": True}\<close>
  gives \<open>'has_encrypted_data' = 'True'\<close>.
\<close>

theorem format_table_properties_renders_pairs:
  "format_table_properties str_repr (VDict items) =
     Inr (py_join '',''
           (map (\<lambda>(k, v). squote @ k @ squote @ '' = '' @ squote @ py_str str_repr v @ squote)
                items))
   \<and> py_str str_repr (VBool True) = ''True''
   \<and> format_table_properties str_repr (VDict [(''has_encrypted_data'', VBool True)]) =
     Inr (squote @ ''has_encrypted_data' = 'True'' @ squote)
   \<and> format_table_properties str_repr
        (VDict [(''parquet.compress'', VStr ''SNAPPY''), (''serialization.format'', VInt 1)]) =
     Inr (squote @ ''parquet.compress' = 'SNAPPY','serialization.format' = '1'' @ squote)"
  by (simp add: format_table_properties_def py_str_int_def nat_digits.simps)

section \<open>Properties of the schema reader\<close>

lemma map_of_dict_set_upd: "map_of (dict_set kvs k v) = (map_of kvs)(k \<mapsto> v)"
  by (induction kvs) (auto simp: fun_eq_iff)

lemma keys_dict_set:
  "map fst (dict_set kvs k v) =
     (if k \<in> set (map fst kvs) then map fst kvs else map fst kvs @ [k])"
  by (induction kvs) (force simp: image_iff)+

lemma subscript_dict_set:
  "subscript (VDict (dict_set kvs k v)) k' =
     (if k' = k then Inr v else subscript (VDict kvs) k')"
  by (simp add: map_of_dict_set_upd)

lemma properties_comprehension_keys:
  "properties_comprehension schema ks acc = Inr d \<Longrightarrow>
   set (map fst d) = set (map fst acc) \<union> set ks"
proof (induction ks arbitrary: acc)
  case Nil
  then show ?case by simp
next
  case (Cons key ks)
  from Cons.prems obtain v where
    r: "properties_comprehension schema ks (dict_set acc key v) = Inr d"
    by (auto split: sum.splits)
  from Cons.IH [OF r] show ?case
    by (auto simp: keys_dict_set split: if_splits)
qed

lemma properties_comprehension_distinct:
  "properties_comprehension schema ks acc = Inr d \<Longrightarrow> distinct (map fst acc) \<Longrightarrow>
   distinct (map fst d)"
proof (induction ks arbitrary: acc)
  case Nil
  then show ?case by simp
next
  case (Cons key ks)
  from Cons.prems(1) obtain v where
    r: "properties_comprehension schema ks (dict_set acc key v) = Inr d"
    by (auto split: sum.splits)
  from Cons.prems(2) have "distinct (map fst (dict_set acc key v))"
    by (simp add: keys_dict_set)
  from Cons.IH [OF r this] show ?case .
qed

lemma properties_comprehension_values:
  "properties_comprehension schema ks acc = Inr d \<Longrightarrow>
   subscript schema ''properties'' = Inr props \<Longrightarrow>
   subscript (VDict d) k =
     (if k \<in> set ks then subscript props k else subscript (VDict acc) k)"
proof (induction ks arbitrary: acc)
  case Nil
  then show ?case by simp
next
  case (Cons key ks)
  from Cons.prems obtain v where
    v: "subscript props key = Inr v" and
    r: "properties_comprehension schema ks (dict_set acc key v) = Inr d"
    by (auto split: sum.splits)
  from Cons.IH [OF r Cons.prems(2)] v show ?case
    by (auto simp: subscript_dict_set simp del: subscript.simps)
qed

lemma properties_comprehension_succeeds:
  "subscript schema ''properties'' = Inr props \<Longrightarrow>
   \<forall>k \<in> set ks. \<exists>v. subscript props k = Inr v \<Longrightarrow>
   \<exists>d. properties_comprehension schema ks acc = Inr d"
  by (induction ks arbitrary: acc) auto

lemma get_col_data_schema_after:
  "snd (get_col_data self_schema schema0 filtered_col) =
     (let schema = (if \<not> truthy schema0 then self_schema else schema0) in
      case filtered_col of
        Some (c # cs) \<Rightarrow>
          (case properties_comprehension schema (c # cs) [] of
             Inl e \<Rightarrow> schema
           | Inr d \<Rightarrow> (case setitem schema ''properties'' (VDict d) of
                         Inl e \<Rightarrow> schema | Inr schema' \<Rightarrow> schema'))
      | _ \<Rightarrow> schema)"
proof -
  define schema where "schema = (if \<not> truthy schema0 then self_schema else schema0)"
  define step where "step =
     (case filtered_col of
        Some (c # cs) \<Rightarrow>
          (case properties_comprehension schema (c # cs) [] of
             Inl e \<Rightarrow> Inl e
           | Inr d \<Rightarrow>
              (case setitem schema ''properties'' (VDict d) of
                 Inl e \<Rightarrow> Inl e
               | Inr schema' \<Rightarrow> Inr (schema', [LogInfo (ColDataFiltered (c # cs))])))
      | _ \<Rightarrow> Inr (schema, []))"
  have g: "snd (get_col_data self_schema schema0 filtered_col) =
        (case step of Inl e \<Rightarrow> schema | Inr (schema1, lg1) \<Rightarrow> schema1)"
    unfolding get_col_data.simps [of self_schema schema0 filtered_col] Let_def
      schema_def [symmetric] step_def [symmetric]
    by (simp split: sum.splits prod.splits)
  show ?thesis
    unfolding g Let_def schema_def [symmetric] step_def
    by (simp del: properties_comprehension.simps
          split: option.splits list.splits sum.splits)
qed

lemma get_col_data_unfiltered_frame:
  "snd (get_col_data self_schema schema0 None) =
     (if \<not> truthy schema0 then self_schema else schema0)"
  "snd (get_col_data self_schema schema0 (Some [])) =
     (if \<not> truthy schema0 then self_schema else schema0)"
  by (simp_all add: get_col_data_schema_after)

lemma keys_dict_set_present:
  "map_of kvs k = Some w \<Longrightarrow> map fst (dict_set kvs k v) = map fst kvs"
  by (induction kvs) (auto split: if_splits)

text \<open>
  Claim C2 fails: \<open>get_col_data\<close> makes no copy. Called on a schema with the
  properties \<open>eid\<close> and \<open>age\<close> and the filter \<open>["age"]\<close>, it returns the
  column data of \<open>age\<close>, and the caller's schema has lost \<open>eid\<close>.
\<close>

theorem get_col_data_changes_caller_schema:
  "fst (get_col_data VNone
     (VDict [(''description'', VStr ''people''),
             (''properties'',
              VDict [(''eid'', VDict [(''type'', VStr ''string''), (''description'', VStr ''id'')]),
                     (''age'', VDict [(''type'', VStr ''integer''),
                                      (''description'', VStr ''years'')])])])
     (Some [''age'']))
    = (Inr (VDict [(''age'', VDict [(''type'', VStr ''integer''),
                                    (''description'', VStr ''years'')])]),
       [LogInfo ColDataStart, LogInfo (ColDataFiltered [''age'']), LogInfo ColDataEnd])
   \<and> snd (get_col_data VNone
     (VDict [(''description'', VStr ''people''),
             (''properties'',
              VDict [(''eid'', VDict [(''type'', VStr ''string''), (''description'', VStr ''id'')]),
                     (''age'', VDict [(''type'', VStr ''integer''),
                                      (''description'', VStr ''years'')])])])
     (Some [''age'']))
    = VDict [(''description'', VStr ''people''),
             (''properties'',
              VDict [(''age'', VDict [(''type'', VStr ''integer''),
                                      (''description'', VStr ''years'')])])]
   \<and> snd (get_col_data VNone
     (VDict [(''description'', VStr ''people''),
             (''properties'',
              VDict [(''eid'', VDict [(''type'', VStr ''string''), (''description'', VStr ''id'')]),
                     (''age'', VDict [(''type'', VStr ''integer''),
                                      (''description'', VStr ''years'')])])])
     (Some [''age'']))
    \<noteq> VDict [(''description'', VStr ''people''),
             (''properties'',
              VDict [(''eid'', VDict [(''type'', VStr ''string''), (''description'', VStr ''id'')]),
                     (''age'', VDict [(''type'', VStr ''integer''),
                                      (''description'', VStr ''years'')])])]"
  by (simp add: get_col_data.simps)

text \<open>
  Claim C2 as amended. For a truthy schema \<open>S\<close> whose \<open>properties\<close> entry is
  a dictionary and a non-empty filter \<open>F\<close> of keys of that dictionary,
  \<open>get_col_data(schema=S, filtered_col=F)\<close> assigns to \<open>S["properties"]\<close> in
  place: when the call ends, \<open>S["properties"]\<close> is a dictionary \<open>d\<close> whose keys
  are exactly the names in \<open>F\<close>, each once and with the value it had in the old
  \<open>S["properties"]\<close>; the keys of \<open>S\<close> and the value of every key other than
  \<open>properties\<close> are unchanged.
\<close>

theorem get_col_data_assigns_properties_in_place:
  assumes "truthy S"
      and "subscript S ''properties'' = Inr props"
      and "F \<noteq> []"
      and "\<forall>k \<in> set F. \<exists>v. subscript props k = Inr v"
  shows "\<exists>d. setitem S ''properties'' (VDict d) = Inr (snd (get_col_data self_schema S (Some F)))
           \<and> subscript (snd (get_col_data self_schema S (Some F))) ''properties'' = Inr (VDict d)
           \<and> set (map fst d) = set F
           \<and> distinct (map fst d)
           \<and> (\<forall>k \<in> set F. subscript (VDict d) k = subscript props k)
           \<and> py_keys (snd (get_col_data self_schema S (Some F))) = py_keys S
           \<and> (\<forall>k. k \<noteq> ''properties'' \<longrightarrow>
                  subscript (snd (get_col_data self_schema S (Some F))) k = subscript S k)"
proof -
  from assms(2,4) obtain d where d: "properties_comprehension S F [] = Inr d"
    using properties_comprehension_succeeds by blast
  from assms(2) obtain kvs where S: "S = VDict kvs"
    by (cases S) auto
  from assms(2) S have pk: "map_of kvs ''properties'' = Some props"
    by (auto split: option.splits)
  from assms(3) obtain c cs where F: "F = c # cs" by (cases F) auto
  let ?S' = "VDict (dict_set kvs ''properties'' (VDict d))"
  have after: "snd (get_col_data self_schema S (Some F)) = ?S'"
    using d assms(1) unfolding get_col_data_schema_after F S
    by (simp del: properties_comprehension.simps)
  have "setitem S ''properties'' (VDict d) = Inr ?S'" by (simp add: S)
  moreover have "subscript ?S' ''properties'' = Inr (VDict d)"
    by (simp add: subscript_dict_set del: subscript.simps)
  moreover have "set (map fst d) = set F"
    using properties_comprehension_keys [OF d] by simp
  moreover have "distinct (map fst d)"
    using properties_comprehension_distinct [OF d] by simp
  moreover have "\<forall>k \<in> set F. subscript (VDict d) k = subscript props k"
    using properties_comprehension_values [OF d assms(2)] by simp
  moreover have "py_keys ?S' = py_keys S"
    unfolding S using keys_dict_set_present [OF pk] by simp
  moreover have "\<forall>k. k \<noteq> ''properties'' \<longrightarrow> subscript ?S' k = subscript S k"
    unfolding S by (simp add: subscript_dict_set del: subscript.simps)
  ultimately show ?thesis unfolding after by blast
qed

theorem get_col_data_assigns_properties_in_place_witness:
  "truthy (VDict [(''properties'',
              VDict [(''eid'', VDict [(''type'', VStr ''string''), (''description'', VStr ''id'')]),
                     (''age'', VDict [(''type'', VStr ''integer''),
                                      (''description'', VStr ''years'')])])])
   \<and> (\<exists>v. subscript
              (VDict [(''eid'', VDict [(''type'', VStr ''string''), (''description'', VStr ''id'')]),
                      (''age'', VDict [(''type'', VStr ''integer''),
                                       (''description'', VStr ''years'')])])
              ''age'' = Inr v)
   \<and> (\<exists>d. subscript (snd (get_col_data VNone
              (VDict [(''properties'',
                 VDict [(''eid'', VDict [(''type'', VStr ''string''),
                                         (''description'', VStr ''id'')]),
                        (''age'', VDict [(''type'', VStr ''integer''),
                                         (''description'', VStr ''years'')])])])
              (Some [''age'']))) ''properties'' = Inr (VDict d)
          \<and> set (map fst d) = {''age''}
          \<and> subscript (VDict d) ''age''
              = Inr (VDict [(''type'', VStr ''integer''), (''description'', VStr ''years'')]))"
proof -
  let ?props = "VDict [(''eid'', VDict [(''type'', VStr ''string''), (''description'', VStr ''id'')]),
                       (''age'', VDict [(''type'', VStr ''integer''),
                                        (''description'', VStr ''years'')])]"
  let ?S = "VDict [(''properties'', ?props)]"
  have a: "truthy ?S" by simp
  have b: "subscript ?S ''properties'' = Inr ?props" by simp
  have c: "[''age''] \<noteq> []" by simp
  have e: "subscript ?props ''age''
             = Inr (VDict [(''type'', VStr ''integer''), (''description'', VStr ''years'')])"
    by simp
  then have d: "\<forall>k \<in> set [''age'']. \<exists>v. subscript ?props k = Inr v" by simp
  from get_col_data_assigns_properties_in_place [OF a b c d, of VNone]
  obtain d where
    "subscript (snd (get_col_data VNone ?S (Some [''age'']))) ''properties'' = Inr (VDict d)"
    "set (map fst d) = set [''age'']"
    "\<forall>k \<in> set [''age'']. subscript (VDict d) k = subscript ?props k"
    by blast
  with e have "subscript (snd (get_col_data VNone ?S (Some [''age'']))) ''properties'' = Inr (VDict d)
      \<and> set (map fst d) = {''age''}
      \<and> subscript (VDict d) ''age''
          = Inr (VDict [(''type'', VStr ''integer''), (''description'', VStr ''years'')])"
    by simp
  with a e show ?thesis by blast
qed


text \<open>
  Claim C10. In both modules, \<open>_get_custom_type\<close> called with the empty mapping as
  override returns and logs exactly what it does without an override, for every type name:
  the empty mapping is falsy and the module's \<open>TYPE_MAPPING\<close> takes its place. So the
  name \<open>string\<close> still resolves under an empty override.
\<close>

theorem get_custom_type_empty_override:
  "Validation_get_custom_type t (Some []) = Validation_get_custom_type t None
   \<and> Query_get_custom_type t (Some []) = Query_get_custom_type t None
   \<and> Validation_get_custom_type (VStr ''string'') (Some []) = (Inr (Some TStr), [])
   \<and> Query_get_custom_type (VStr ''string'') (Some []) = (Inr (Some ''varchar''), [])"
  by (simp add: Validation_get_custom_type_def Query_get_custom_type_def
        event_validator_TYPE_MAPPING_def json_schema_to_hive_TYPE_MAPPING_def)

end
